theory Spec2Isabelle
  imports Complex_Main "HOL-Library.Sublist"
begin

section \<open>Financeiro Pessoal: the logic of src/src/App.tsx\<close>

text \<open>
  A shallow embedding of the classification and aggregation logic of the single React
  component \<^verbatim>\<open>AppFinanceiroPessoal\<close>.

  Conventions of the model:
  \<^item> a JavaScript string is a \<open>string\<close> holding its UTF-8 bytes; the letters with a
    diacritic of the Portuguese category names are written as their two bytes;
  \<^item> a JavaScript \<open>number\<close> is a \<open>real\<close>: finite and exact. Rounding to binary64, NaN
    and the infinities are outside the model, except where a function says otherwise
    (\<open>Number\<close> below returns a \<open>jsnum\<close>, and the stored values of the backup hold one);
  \<^item> an optional field (\<^verbatim>\<open>category?: string\<close>) is an \<open>option\<close>, \<open>None\<close> being
    \<^verbatim>\<open>undefined\<close>;
  \<^item> a \<^verbatim>\<open>Record<string, number>\<close> that is only read at the categories of the fixed
    vocabulary is a map \<open>string \<rightharpoonup> real\<close>; the object the spend by category is
    accumulated in is modelled with the properties it inherits from
    \<^verbatim>\<open>Object.prototype\<close>.
\<close>

subsection \<open>JavaScript values\<close>

text \<open>
  A JavaScript number that may not be finite: what \<^verbatim>\<open>Number(s)\<close> returns, and what a
  stored value may hold. The finite values are exact here; rounding to binary64 and
  overflow are outside the model.
\<close>

datatype jsnum = NaN | Num real | PosInfinity | NegInfinity

text \<open>
  The values the three stored collections are made of, and what the \<^verbatim>\<open>raw?: any\<close> field
  of a transaction holds. A \<open>JObj\<close> lists the properties of an object in their order,
  each key once; a property may hold \<^verbatim>\<open>undefined\<close>, as \<^verbatim>\<open>category\<close> does on an imported
  row without a category.
\<close>

datatype jsvalue =
    JUndefined
  | JNull
  | JBool bool
  | JNum jsnum
  | JStr string
  | JArr "jsvalue list"
  | JObj "(string \<times> jsvalue) list"

subsection \<open>Types\<close>

text \<open>
  \<^verbatim>\<open>export type Tx = { id; date; amount; description; account?; method?; category?; raw? }\<close>.
  The fields \<^verbatim>\<open>id\<close> and \<^verbatim>\<open>method\<close> are renamed \<open>txId\<close> and \<open>txMethod\<close>: the first is the
  identity function of HOL, the second a reserved word.
\<close>

record Tx =
  txId :: string
  date :: string
  amount :: real
  description :: string
  account :: "string option"
  txMethod :: "string option"
  category :: "string option"
  raw :: "jsvalue option"

text \<open>
  \<^verbatim>\<open>export type Rule = { id; keywords; category; enabled; priority }\<close>; \<open>ruleId\<close>,
  \<open>ruleKeywords\<close> and \<open>ruleCategory\<close> are the fields \<^verbatim>\<open>id\<close>, \<^verbatim>\<open>keywords\<close> and
  \<^verbatim>\<open>category\<close> of a rule.
\<close>

record Rule =
  ruleId :: string
  ruleKeywords :: string
  ruleCategory :: string
  enabled :: bool
  priority :: real

type_synonym Budget = "string \<rightharpoonup> real"

subsection \<open>String primitives of JavaScript\<close>

text \<open>
  \<^verbatim>\<open>String.prototype.trim\<close> removes white space and line terminators at both ends; the
  model knows the ASCII ones (TAB, LF, VT, FF, CR, SP).
\<close>

definition isSpace :: "char \<Rightarrow> bool" where
  "isSpace c = (c \<in> set [CHR 0x09, CHR 0x0A, CHR 0x0B, CHR 0x0C, CHR 0x0D, CHR '' ''])"

definition trim :: "string \<Rightarrow> string" where
  "trim s = rev (dropWhile isSpace (rev (dropWhile isSpace s)))"

text \<open>
  \<^verbatim>\<open>String.prototype.toLowerCase\<close>, on the ASCII letters; every other byte is kept.
\<close>

definition toLowerChar :: "char \<Rightarrow> char" where
  "toLowerChar c =
     (case map_of (zip ''ABCDEFGHIJKLMNOPQRSTUVWXYZ'' ''abcdefghijklmnopqrstuvwxyz'') c of
        Some l \<Rightarrow> l
      | None \<Rightarrow> c)"

definition toLowerCase :: "string \<Rightarrow> string" where
  "toLowerCase s = map toLowerChar s"

text \<open>
  \<^verbatim>\<open>s.split(sep)\<close> for a separator of one character: the pieces between the separators,
  at least one piece, empty pieces kept.
\<close>

fun split_str :: "char \<Rightarrow> string \<Rightarrow> string list" where
  "split_str sep [] = [[]]"
| "split_str sep (c # cs) =
     (if c = sep then [] # split_str sep cs
      else (case split_str sep cs of
              [] \<Rightarrow> [[c]]
            | w # ws \<Rightarrow> (c # w) # ws))"

text \<open>\<^verbatim>\<open>s.includes(k)\<close>: \<open>k\<close> occurs in \<open>s\<close> as a contiguous run.\<close>

fun includes_str :: "string \<Rightarrow> string \<Rightarrow> bool" where
  "includes_str [] k = (k = [])"
| "includes_str (c # cs) k = (prefix k (c # cs) \<or> includes_str cs k)"

text \<open>The truthiness of an optional string: \<^verbatim>\<open>undefined\<close> and \<^verbatim>\<open>""\<close> are falsy.\<close>

definition truthyStr :: "string option \<Rightarrow> bool" where
  "truthyStr v = (case v of None \<Rightarrow> False | Some s \<Rightarrow> s \<noteq> [])"

subsection \<open>The rule engine: \<^verbatim>\<open>applyRules\<close>\<close>

text \<open>
  \<^verbatim>\<open>const r = [...rules].filter((x) => x.enabled).sort((a, b) => a.priority - b.priority)\<close>.
  \<^verbatim>\<open>Array.prototype.sort\<close> is stable, as is \<open>sort_key\<close>.
\<close>

definition activeRules :: "Rule list \<Rightarrow> Rule list" where
  "activeRules rs = sort_key priority (filter enabled rs)"

text \<open>
  \<^verbatim>\<open>rule.keywords.split(",").map((x) => x.trim().toLowerCase()).filter(Boolean)\<close>
\<close>

definition kws :: "Rule \<Rightarrow> string list" where
  "kws rule =
     filter (\<lambda>x. x \<noteq> []) (map (\<lambda>x. toLowerCase (trim x)) (split_str CHR '','' (ruleKeywords rule)))"

text \<open>
  \<^verbatim>\<open>const desc = `${t.description} ${t.account ?? ""}`.toLowerCase()\<close>: the template
  puts one space between the two fields.
\<close>

definition descOf :: "Tx \<Rightarrow> string" where
  "descOf t =
     toLowerCase (description t @ '' '' @ (case account t of None \<Rightarrow> [] | Some a \<Rightarrow> a))"

text \<open>
  The loop \<^verbatim>\<open>for (const rule of r)\<close> of the callback, which returns at the first rule
  one of whose keywords \<open>desc\<close> includes, and \<open>t\<close> itself when the rules are exhausted.
\<close>

fun ruleLoop :: "Tx \<Rightarrow> string \<Rightarrow> Rule list \<Rightarrow> Tx" where
  "ruleLoop t desc [] = t"
| "ruleLoop t desc (rule # rs) =
     (if list_ex (\<lambda>k. includes_str desc k) (kws rule)
      then t\<lparr>category := Some (ruleCategory rule)\<rparr>
      else ruleLoop t desc rs)"

text \<open>The callback of \<^verbatim>\<open>list.map\<close>.\<close>

definition applyRulesTx :: "Rule list \<Rightarrow> Tx \<Rightarrow> Tx" where
  "applyRulesTx r t = (if truthyStr (category t) then t else ruleLoop t (descOf t) r)"

text \<open>The list \<^verbatim>\<open>next\<close> that \<^verbatim>\<open>applyRules\<close> stores with \<^verbatim>\<open>setTx\<close>.\<close>

definition applyRulesNext :: "Rule list \<Rightarrow> Tx list \<Rightarrow> Tx list" where
  "applyRulesNext rs list = map (applyRulesTx (activeRules rs)) list"

text \<open>
  The three persisted collections of the component, and \<^verbatim>\<open>applyRules(toUpdate?)\<close> as a
  function of them: \<^verbatim>\<open>const list = toUpdate ?? tx\<close>, then \<^verbatim>\<open>setTx(next)\<close>.
\<close>

record AppState =
  tx :: "Tx list"
  budget :: Budget
  rules :: "Rule list"

definition applyRules :: "AppState \<Rightarrow> Tx list option \<Rightarrow> AppState" where
  "applyRules st toUpdate =
     (let list = (case toUpdate of None \<Rightarrow> tx st | Some l \<Rightarrow> l)
      in st\<lparr>tx := applyRulesNext (rules st) list\<rparr>)"

subsection \<open>Decimal digits\<close>

definition isDigit :: "char \<Rightarrow> bool" where
  "isDigit c = (c \<in> set ''0123456789'')"

text \<open>The value of a decimal digit: its place in \<open>''0123456789''\<close>.\<close>

definition digitVal :: "char \<Rightarrow> nat" where
  "digitVal c = length (takeWhile (\<lambda>d. d \<noteq> c) ''0123456789'')"

definition digitsVal :: "string \<Rightarrow> nat" where
  "digitsVal s = foldl (\<lambda>n c. 10 * n + digitVal c) 0 s"

text \<open>\<^verbatim>\<open>String(n)\<close> for an integer \<open>n\<close>.\<close>

fun showNat :: "nat \<Rightarrow> string" where
  "showNat n =
     (if n < 10 then [''0123456789'' ! n]
      else showNat (n div 10) @ [''0123456789'' ! (n mod 10)])"

declare showNat.simps [simp del]

definition showInt :: "int \<Rightarrow> string" where
  "showInt i = (if i < 0 then ''-'' @ showNat (nat (- i)) else showNat (nat i))"

text \<open>\<^verbatim>\<open>s.padStart(2, "0")\<close>\<close>

definition padStart2 :: "string \<Rightarrow> string" where
  "padStart2 s = replicate (2 - length s) CHR ''0'' @ s"

subsection \<open>The month of a transaction: \<^verbatim>\<open>ym\<close>\<close>

text \<open>
  \<^verbatim>\<open>function ym(date) { const d = new Date(date);
    return `${d.getFullYear()}-${String(d.getMonth() + 1).padStart(2, "0")}`; }\<close>

  The \<^verbatim>\<open>Date\<close> of the platform is modelled on the dates a \<^verbatim>\<open>Tx\<close> holds
  (\<^verbatim>\<open>date: string; // ISO yyyy-mm-dd\<close>): ECMA-262 reads a date-only ISO string as
  midnight UTC of that day, and \<^verbatim>\<open>getFullYear\<close> and \<^verbatim>\<open>getMonth\<close> read the date in
  local time. A calendar date is (year, month, day), months counted from 1.
\<close>

type_synonym civil = "int \<times> nat \<times> nat"

definition isLeap :: "int \<Rightarrow> bool" where
  "isLeap y = (y mod 4 = 0 \<and> (y mod 100 \<noteq> 0 \<or> y mod 400 = 0))"

definition daysInMonth :: "int \<Rightarrow> nat \<Rightarrow> nat" where
  "daysInMonth y m =
     (if m = 2 then (if isLeap y then 29 else 28)
      else if m \<in> set [4, 6, 9, 11] then 30 else 31)"

text \<open>The shape \<^verbatim>\<open>YYYY-MM-DD\<close>, which is also the first pattern of the CSV import.\<close>

definition isoPattern :: "string \<Rightarrow> bool" where
  "isoPattern s =
     (length s = 10 \<and> list_all isDigit (take 4 s) \<and> s ! 4 = CHR ''-'' \<and>
      list_all isDigit (take 2 (drop 5 s)) \<and> s ! 7 = CHR ''-'' \<and>
      list_all isDigit (drop 8 s))"

text \<open>
  \<^verbatim>\<open>new Date(date)\<close> for a date-only ISO string of a day that exists: the day, at
  midnight UTC. Every other string gives \<open>None\<close> here, the invalid date: what the
  platforms do with other strings is outside the model.
\<close>

definition dateParse :: "string \<Rightarrow> civil option" where
  "dateParse s =
     (if isoPattern s then
        (let y = int (digitsVal (take 4 s));
             m = digitsVal (take 2 (drop 5 s));
             d = digitsVal (drop 8 s)
         in if 1 \<le> m \<and> m \<le> 12 \<and> 1 \<le> d \<and> d \<le> daysInMonth y m
            then Some (y, m, d) else None)
      else None)"

definition prevDay :: "civil \<Rightarrow> civil" where
  "prevDay c =
     (case c of (y, m, d) \<Rightarrow>
        if 1 < d then (y, m, d - 1)
        else if 1 < m then (y, m - 1, daysInMonth y (m - 1))
        else (y - 1, 12, 31))"

text \<open>
  The local calendar date at midnight UTC of a day, where local time is UTC plus \<open>tz\<close>
  minutes (\<open>tz\<close> between \<open>-720\<close> and \<open>840\<close> for the time zones in use): the same day
  east of Greenwich, the day before west of it.
\<close>

definition localDate :: "int \<Rightarrow> civil \<Rightarrow> civil" where
  "localDate tz c = (if tz < 0 then prevDay c else c)"

definition ym :: "int \<Rightarrow> string \<Rightarrow> string" where
  "ym tz s =
     (case dateParse s of
        None \<Rightarrow> ''NaN-NaN''
      | Some c \<Rightarrow>
          (case localDate tz c of (y, m, d) \<Rightarrow> showInt y @ ''-'' @ padStart2 (showNat m)))"

subsection \<open>The aggregator\<close>

text \<open>\<^verbatim>\<open>const txMonth = tx.filter((t) => ym(t.date) === month)\<close>\<close>

definition txMonth :: "int \<Rightarrow> string \<Rightarrow> Tx list \<Rightarrow> Tx list" where
  "txMonth tz month txs = filter (\<lambda>t. ym tz (date t) = month) txs"

text \<open>\<^verbatim>\<open>txMonth.filter((t) => t.amount > 0).reduce((a, b) => a + b.amount, 0)\<close>\<close>

definition receitaMes :: "Tx list \<Rightarrow> real" where
  "receitaMes txm = foldl (\<lambda>a b. a + amount b) 0 (filter (\<lambda>t. amount t > 0) txm)"

text \<open>\<^verbatim>\<open>txMonth.filter((t) => t.amount < 0).reduce((a, b) => a + Math.abs(b.amount), 0)\<close>\<close>

definition despesaMes :: "Tx list \<Rightarrow> real" where
  "despesaMes txm = foldl (\<lambda>a b. a + \<bar>amount b\<bar>) 0 (filter (\<lambda>t. amount t < 0) txm)"

definition resultadoMes :: "Tx list \<Rightarrow> real" where
  "resultadoMes txm = receitaMes txm - despesaMes txm"

text \<open>\<^verbatim>\<open>t.category || "Outros"\<close>\<close>

definition categoryOrOutros :: "Tx \<Rightarrow> string" where
  "categoryOrOutros t =
     (case category t of None \<Rightarrow> ''Outros'' | Some c \<Rightarrow> if c = [] then ''Outros'' else c)"

text \<open>
  \<^verbatim>\<open>const map: Record<string, number> = {}\<close> is a plain object: besides the properties
  the loop gives it, it has the properties every object inherits from
  \<^verbatim>\<open>Object.prototype\<close>. What \<^verbatim>\<open>map[c]\<close> can be: a number, a string, or an inherited
  value (a function, or for \<^verbatim>\<open>__proto__\<close> the prototype object), named here by its key.
\<close>

datatype entry = NumE real | StrE string | InheritedE string

definition objectPrototypeKeys :: "string list" where
  "objectPrototypeKeys =
     [''constructor'', ''toString'', ''toLocaleString'', ''valueOf'', ''hasOwnProperty'',
      ''isPrototypeOf'', ''propertyIsEnumerable'', ''__defineGetter__'', ''__defineSetter__'',
      ''__lookupGetter__'', ''__lookupSetter__'', ''__proto__'']"

text \<open>\<^verbatim>\<open>map[c]\<close>: the object's own property, else the inherited one, else \<^verbatim>\<open>undefined\<close>.\<close>

definition getEntry :: "(string \<rightharpoonup> entry) \<Rightarrow> string \<Rightarrow> entry option" where
  "getEntry mp c =
     (case mp c of
        Some v \<Rightarrow> Some v
      | None \<Rightarrow> if c \<in> set objectPrototypeKeys then Some (InheritedE c) else None)"

text \<open>\<^verbatim>\<open>v || 0\<close>: 0 and the empty string are falsy, functions and objects are truthy.\<close>

definition orZero :: "entry option \<Rightarrow> entry" where
  "orZero v =
     (case v of
        None \<Rightarrow> NumE 0
      | Some (NumE x) \<Rightarrow> if x = 0 then NumE 0 else NumE x
      | Some (StrE s) \<Rightarrow> if s = [] then NumE 0 else StrE s
      | Some (InheritedE k) \<Rightarrow> InheritedE k)"

text \<open>
  \<^verbatim>\<open>v + x\<close> for a number \<open>x\<close>: the sum of two numbers, and otherwise the text of \<open>v\<close>
  followed by the text of \<open>x\<close>. The texts come from the platform and are parameters:
  \<open>str x\<close> is \<^verbatim>\<open>String(x)\<close>, and \<open>inh k\<close> is the text of the value inherited under \<open>k\<close>
  (for \<^verbatim>\<open>constructor\<close>, in V8, \<^verbatim>\<open>function Object() { [native code] }\<close>).
\<close>

definition plusNumber :: "(real \<Rightarrow> string) \<Rightarrow> (string \<Rightarrow> string) \<Rightarrow> entry \<Rightarrow> real \<Rightarrow> entry" where
  "plusNumber str inh v x =
     (case v of
        NumE y \<Rightarrow> NumE (y + x)
      | StrE s \<Rightarrow> StrE (s @ str x)
      | InheritedE k \<Rightarrow> StrE (inh k @ str x))"

text \<open>
  \<^verbatim>\<open>map[c] = v\<close> for a number or a string \<open>v\<close>: the object gets the property, except
  under \<^verbatim>\<open>__proto__\<close>, whose setter ignores a value that is not an object.
\<close>

definition setEntry :: "(string \<rightharpoonup> entry) \<Rightarrow> string \<Rightarrow> entry \<Rightarrow> (string \<rightharpoonup> entry)" where
  "setEntry mp c v = (if c = ''__proto__'' then mp else mp(c \<mapsto> v))"

text \<open>
  The body of the loop \<^verbatim>\<open>for (const t of txMonth)\<close>:
  \<^verbatim>\<open>if (t.amount < 0) { const c = t.category || "Outros";
    map[c] = (map[c] || 0) + Math.abs(t.amount); }\<close>
\<close>

definition gastoStep ::
  "(real \<Rightarrow> string) \<Rightarrow> (string \<Rightarrow> string) \<Rightarrow> (string \<rightharpoonup> entry) \<Rightarrow> Tx \<Rightarrow> (string \<rightharpoonup> entry)" where
  "gastoStep str inh mp t =
     (if amount t < 0 then
        (let c = categoryOrOutros t
         in setEntry mp c (plusNumber str inh (orZero (getEntry mp c)) \<bar>amount t\<bar>))
      else mp)"

definition gastoPorCategoria ::
  "(real \<Rightarrow> string) \<Rightarrow> (string \<Rightarrow> string) \<Rightarrow> Tx list \<Rightarrow> (string \<rightharpoonup> entry)" where
  "gastoPorCategoria str inh txm = foldl (gastoStep str inh) Map.empty txm"

subsection \<open>The budget table: \<^verbatim>\<open>budgetRows\<close>\<close>

definition DEFAULT_CATEGORIES :: "string list" where
  "DEFAULT_CATEGORIES =
     [''Moradia'',
      ''Alimenta'' @ [CHR 0xC3, CHR 0xA7, CHR 0xC3, CHR 0xA3] @ ''o'',
      ''Transporte'',
      ''Sa'' @ [CHR 0xC3, CHR 0xBA] @ ''de'',
      ''Educa'' @ [CHR 0xC3, CHR 0xA7, CHR 0xC3, CHR 0xA3] @ ''o'',
      ''Lazer'',
      ''Compras Pessoais'',
      ''Assinaturas e Servi'' @ [CHR 0xC3, CHR 0xA7] @ ''os'',
      ''Impostos/Taxas'',
      ''Emerg'' @ [CHR 0xC3, CHR 0xAA] @ ''ncias/Imprevistos'',
      ''Investimentos/Reserva'',
      ''Outros'']"

text \<open>\<^verbatim>\<open>let status: "verde" | "amarelo" | "vermelho" | "cinza"\<close>\<close>

datatype Status = verde | amarelo | vermelho | cinza

record BudgetRow =
  categoria :: string
  aloc :: real
  orcado :: real
  gasto :: real
  variancia :: real
  cumprimento :: real
  status :: Status

text \<open>The callback of \<^verbatim>\<open>DEFAULT_CATEGORIES.map\<close>.\<close>

definition budgetRow :: "Budget \<Rightarrow> real \<Rightarrow> (string \<rightharpoonup> real) \<Rightarrow> string \<Rightarrow> BudgetRow" where
  "budgetRow bud receita gastos c =
     (let al = (case bud c of None \<Rightarrow> 0 | Some v \<Rightarrow> v);
          orc = receita * al;
          gas = (case gastos c of None \<Rightarrow> 0 | Some v \<Rightarrow> v);
          cump = (if orc > 0 then gas / orc else 0);
          st = (if orc = 0 \<and> gas = 0 then cinza
                else if cump < 0.8 then verde
                else if cump \<le> 1 then amarelo
                else vermelho)
      in \<lparr>categoria = c, aloc = al, orcado = orc, gasto = gas, variancia = orc - gas,
          cumprimento = cump, status = st\<rparr>)"

definition budgetRows :: "Budget \<Rightarrow> real \<Rightarrow> (string \<rightharpoonup> real) \<Rightarrow> BudgetRow list" where
  "budgetRows bud receita gastos = map (budgetRow bud receita gastos) DEFAULT_CATEGORIES"

subsection \<open>The CSV import: the amount\<close>

fun negJs :: "jsnum \<Rightarrow> jsnum" where
  "negJs NaN = NaN"
| "negJs (Num x) = Num (- x)"
| "negJs PosInfinity = NegInfinity"
| "negJs NegInfinity = PosInfinity"

text \<open>
  \<^verbatim>\<open>Number(s)\<close> on a string, after the grammar \<open>StringNumericLiteral\<close> of ECMA-262:
  white space around, nothing (the value 0), a binary, octal or hexadecimal integer
  without sign, or a decimal literal with an optional sign, fraction and exponent, or
  \<^verbatim>\<open>Infinity\<close>. Anything else is NaN.
\<close>

definition baseDigit :: "char \<Rightarrow> nat" where
  "baseDigit c = length (takeWhile (\<lambda>d. d \<noteq> toLowerChar c) ''0123456789abcdef'')"

text \<open>The prefixes \<^verbatim>\<open>0b\<close>, \<^verbatim>\<open>0o\<close> and \<^verbatim>\<open>0x\<close>, in either case: the base they announce.\<close>

definition radix :: "char \<Rightarrow> nat option" where
  "radix x =
     (if x \<in> set ''bB'' then Some 2
      else if x \<in> set ''oO'' then Some 8
      else if x \<in> set ''xX'' then Some 16
      else None)"

definition nonDecimal :: "string \<Rightarrow> jsnum option" where
  "nonDecimal t =
     (case t of
        z # x # ds \<Rightarrow>
          if z = CHR ''0'' then
            (case radix x of
               None \<Rightarrow> None
             | Some base \<Rightarrow>
                 if ds \<noteq> [] \<and> list_all (\<lambda>c. baseDigit c < base) ds
                 then Some (Num (real (foldl (\<lambda>n c. base * n + baseDigit c) 0 ds)))
                 else Some NaN)
          else None
      | _ \<Rightarrow> None)"

text \<open>The exponent part, which may be absent: \<^verbatim>\<open>e\<close> or \<^verbatim>\<open>E\<close>, a sign or none, digits.\<close>

definition expPart :: "string \<Rightarrow> int option" where
  "expPart r =
     (case r of
        [] \<Rightarrow> Some 0
      | e # r1 \<Rightarrow>
          if e = CHR ''e'' \<or> e = CHR ''E'' then
            (let neg = (r1 \<noteq> [] \<and> hd r1 = CHR ''-'');
                 ds = (if r1 \<noteq> [] \<and> (hd r1 = CHR ''-'' \<or> hd r1 = CHR ''+'') then tl r1 else r1)
             in if ds \<noteq> [] \<and> list_all isDigit ds
                then Some (if neg then - int (digitsVal ds) else int (digitsVal ds))
                else None)
          else None)"

definition strUnsignedDecimal :: "string \<Rightarrow> jsnum" where
  "strUnsignedDecimal u =
     (if u = ''Infinity'' then PosInfinity
      else
        (let ip = takeWhile isDigit u;
             r1 = dropWhile isDigit u;
             dot = (r1 \<noteq> [] \<and> hd r1 = CHR ''.'');
             fp = (if dot then takeWhile isDigit (tl r1) else []);
             r2 = (if dot then dropWhile isDigit (tl r1) else r1)
         in if ip = [] \<and> fp = [] then NaN
            else (case expPart r2 of
                    None \<Rightarrow> NaN
                  | Some e \<Rightarrow>
                      Num ((real (digitsVal ip) + real (digitsVal fp) / 10 ^ length fp) *
                           (if 0 \<le> e then 10 ^ nat e else 1 / 10 ^ nat (- e))))))"

definition strDecimal :: "string \<Rightarrow> jsnum" where
  "strDecimal t =
     (case t of
        [] \<Rightarrow> strUnsignedDecimal t
      | c # u \<Rightarrow>
          if c = CHR ''+'' then strUnsignedDecimal u
          else if c = CHR ''-'' then negJs (strUnsignedDecimal u)
          else strUnsignedDecimal t)"

text \<open>The literal between the white space: nothing, a non-decimal integer, or a decimal.\<close>

definition strNumericLiteral :: "string \<Rightarrow> jsnum" where
  "strNumericLiteral t =
     (if t = [] then Num 0
      else (case nonDecimal t of Some n \<Rightarrow> n | None \<Rightarrow> strDecimal t))"

definition Number :: "string \<Rightarrow> jsnum" where
  "Number s = strNumericLiteral (trim s)"

text \<open>\<^verbatim>\<open>s.replace(",", ".")\<close>: a string pattern replaces its first occurrence only.\<close>

fun replaceFirst :: "char \<Rightarrow> char \<Rightarrow> string \<Rightarrow> string" where
  "replaceFirst a b [] = []"
| "replaceFirst a b (c # cs) = (if c = a then b # cs else c # replaceFirst a b cs)"

text \<open>
  The block of \<^verbatim>\<open>onImportCSV\<close> that computes \<^verbatim>\<open>amt\<close> from \<^verbatim>\<open>rawAmount\<close> (a cell of
  the CSV, a string, or \<^verbatim>\<open>undefined\<close>):
  \<^verbatim>\<open>let s = String(rawAmount).trim();
  if (s.includes(".") && s.includes(",")) s = s.replace(/\./g, "").replace(",", ".");
  else if (s.includes(",") && !s.includes(".")) s = s.replace(",", ".");
  const n = Number(s); amt = isNaN(n) ? 0 : n;\<close>
\<close>

definition amountString :: "string \<Rightarrow> string" where
  "amountString cell =
     (let s = trim cell
      in if CHR ''.'' \<in> set s \<and> CHR '','' \<in> set s
         then replaceFirst CHR '','' CHR ''.'' (filter (\<lambda>c. c \<noteq> CHR ''.'') s)
         else if CHR '','' \<in> set s \<and> CHR ''.'' \<notin> set s
         then replaceFirst CHR '','' CHR ''.'' s
         else s)"

text \<open>The characters of an amount without sign, in either convention: digits, dots, commas.\<close>

definition isAmountChar :: "char \<Rightarrow> bool" where
  "isAmountChar c = (isDigit c \<or> c = CHR ''.'' \<or> c = CHR '','')"

definition onImportCSV_amt :: "string option \<Rightarrow> jsnum" where
  "onImportCSV_amt rawAmount =
     (case rawAmount of
        None \<Rightarrow> Num 0
      | Some cell \<Rightarrow> (let n = Number (amountString cell) in if n = NaN then Num 0 else n))"

subsection \<open>The CSV import: the date\<close>

text \<open>\<^verbatim>\<open>/^\d{2}\/\d{2}\/\d{4}$/\<close>\<close>

definition brPattern :: "string \<Rightarrow> bool" where
  "brPattern s =
     (length s = 10 \<and> list_all isDigit (take 2 s) \<and> s ! 2 = CHR ''/'' \<and>
      list_all isDigit (take 2 (drop 3 s)) \<and> s ! 5 = CHR ''/'' \<and>
      list_all isDigit (drop 6 s))"

text \<open>An element of a destructured array, in a template: \<^verbatim>\<open>undefined\<close> when it is missing.\<close>

definition element :: "string list \<Rightarrow> nat \<Rightarrow> string" where
  "element xs i = (if i < length xs then xs ! i else ''undefined'')"

text \<open>
  The block of \<^verbatim>\<open>onImportCSV\<close> that computes \<^verbatim>\<open>d\<close> from \<^verbatim>\<open>rawDate\<close>. Two values come
  from the platform and are parameters: \<open>today\<close> is
  \<^verbatim>\<open>new Date().toISOString().slice(0, 10)\<close>, and \<open>generic s\<close> is
  \<^verbatim>\<open>new Date(s).toISOString().slice(0, 10)\<close>, or \<open>None\<close> when \<^verbatim>\<open>new Date(s)\<close> is invalid.
\<close>

definition onImportCSV_d :: "string \<Rightarrow> (string \<Rightarrow> string option) \<Rightarrow> string option \<Rightarrow> string" where
  "onImportCSV_d today generic rawDate =
     (if truthyStr rawDate then
        (let s = trim (case rawDate of None \<Rightarrow> [] | Some cell \<Rightarrow> cell)
         in if isoPattern s then s
            else if brPattern s then
              (let parts = split_str CHR ''/'' s
               in element parts 2 @ ''-'' @ element parts 1 @ ''-'' @ element parts 0)
            else (case generic s of None \<Rightarrow> today | Some parsed \<Rightarrow> parsed))
      else today)"

subsection \<open>Backup and restore\<close>

text \<open>
  The restore handler stores what \<^verbatim>\<open>JSON.parse\<close> returned without looking at its shape,
  so the three collections are JavaScript values here.
\<close>

record Store =
  s_tx :: jsvalue
  s_budget :: jsvalue
  s_rules :: jsvalue

text \<open>\<^verbatim>\<open>const payload = { tx, budget, rules }\<close>\<close>

definition backupPayload :: "Store \<Rightarrow> jsvalue" where
  "backupPayload st = JObj [(''tx'', s_tx st), (''budget'', s_budget st), (''rules'', s_rules st)]"

text \<open>
  \<^verbatim>\<open>JSON.parse(JSON.stringify(v))\<close>, the value read back from the text written for \<open>v\<close>.
  \<^verbatim>\<open>JSON.stringify\<close> writes a number that is not finite as \<^verbatim>\<open>null\<close>, leaves out the
  properties that hold \<^verbatim>\<open>undefined\<close>, and writes \<^verbatim>\<open>undefined\<close> in an array as \<^verbatim>\<open>null\<close>;
  everything else is written so that \<^verbatim>\<open>JSON.parse\<close> reads the same value. The text
  itself is not modelled.
\<close>

fun jsonClone :: "jsvalue \<Rightarrow> jsvalue" where
  "jsonClone JUndefined = JNull"
| "jsonClone JNull = JNull"
| "jsonClone (JBool b) = JBool b"
| "jsonClone (JNum n) = (case n of Num x \<Rightarrow> JNum (Num x) | _ \<Rightarrow> JNull)"
| "jsonClone (JStr s) = JStr s"
| "jsonClone (JArr xs) = JArr (map jsonClone xs)"
| "jsonClone (JObj kvs) =
     JObj (map (\<lambda>kv. (fst kv, jsonClone (snd kv))) (filter (\<lambda>kv. snd kv \<noteq> JUndefined) kvs))"

text \<open>
  The backup file of a state, read back:
  \<^verbatim>\<open>new Blob([JSON.stringify(payload, null, 2)])\<close> on export, \<^verbatim>\<open>JSON.parse(txt)\<close> on
  restore.
\<close>

definition parsedBackup :: "Store \<Rightarrow> jsvalue" where
  "parsedBackup st = jsonClone (backupPayload st)"

text \<open>
  The values the backup file gives back as they were: no number that is not finite and
  no \<^verbatim>\<open>undefined\<close> in them.
\<close>

fun jsonSafe :: "jsvalue \<Rightarrow> bool" where
  "jsonSafe JUndefined = False"
| "jsonSafe JNull = True"
| "jsonSafe (JBool b) = True"
| "jsonSafe (JNum n) = (case n of Num x \<Rightarrow> True | _ \<Rightarrow> False)"
| "jsonSafe (JStr s) = True"
| "jsonSafe (JArr xs) = list_all jsonSafe xs"
| "jsonSafe (JObj kvs) = list_all (\<lambda>kv. jsonSafe (snd kv)) kvs"

text \<open>The truthiness of a value: what \<^verbatim>\<open>if (v)\<close> tests.\<close>

fun truthy :: "jsvalue \<Rightarrow> bool" where
  "truthy JUndefined = False"
| "truthy JNull = False"
| "truthy (JBool b) = b"
| "truthy (JNum n) = (n \<noteq> NaN \<and> n \<noteq> Num 0)"
| "truthy (JStr s) = (s \<noteq> [])"
| "truthy (JArr xs) = True"
| "truthy (JObj kvs) = True"

text \<open>
  \<^verbatim>\<open>data.k\<close> for a value that is neither \<^verbatim>\<open>null\<close> nor \<^verbatim>\<open>undefined\<close> and a key \<open>k\<close> among
  \<^verbatim>\<open>tx\<close>, \<^verbatim>\<open>budget\<close> and \<^verbatim>\<open>rules\<close>: the property of an object, and no property (\<open>None\<close>,
  read as \<^verbatim>\<open>undefined\<close>) when the object has none and on arrays, strings, numbers and
  booleans.
\<close>

fun getProp :: "jsvalue \<Rightarrow> string \<Rightarrow> jsvalue option" where
  "getProp (JObj kvs) k = map_of kvs k"
| "getProp v k = None"

text \<open>Reading the field \<open>k\<close> of a value: \<^verbatim>\<open>t.k\<close>.\<close>

definition readField :: "jsvalue \<Rightarrow> string \<Rightarrow> jsvalue" where
  "readField v k = (case getProp v k of None \<Rightarrow> JUndefined | Some w \<Rightarrow> w)"

datatype Alert = Backup_restaurado | Arquivo_invalido

text \<open>One line \<^verbatim>\<open>if (data.k) setK(data.k);\<close>\<close>

definition setIfTruthy :: "jsvalue option \<Rightarrow> jsvalue \<Rightarrow> jsvalue" where
  "setIfTruthy v old = (case v of None \<Rightarrow> old | Some w \<Rightarrow> if truthy w then w else old)"

text \<open>
  The handler of the restore input, on the result of \<^verbatim>\<open>JSON.parse(txt)\<close> (\<open>None\<close> when
  it throws):
  \<^verbatim>\<open>try { const data = JSON.parse(txt);
    if (data.tx) setTx(data.tx); if (data.budget) setBudget(data.budget);
    if (data.rules) setRules(data.rules); alert("Backup restaurado."); }
  catch (e) { alert("Arquivo invalido."); }\<close>
  Reading \<^verbatim>\<open>data.tx\<close> throws when \<open>data\<close> is \<^verbatim>\<open>null\<close>, before anything is stored.
\<close>

definition restore :: "Store \<Rightarrow> jsvalue option \<Rightarrow> Store \<times> Alert" where
  "restore st parsed =
     (case parsed of
        None \<Rightarrow> (st, Arquivo_invalido)
      | Some JNull \<Rightarrow> (st, Arquivo_invalido)
      | Some JUndefined \<Rightarrow> (st, Arquivo_invalido)
      | Some d \<Rightarrow>
          (\<lparr>s_tx = setIfTruthy (getProp d ''tx'') (s_tx st),
            s_budget = setIfTruthy (getProp d ''budget'') (s_budget st),
            s_rules = setIfTruthy (getProp d ''rules'') (s_rules st)\<rparr>,
           Backup_restaurado))"

subsection \<open>The rule engine as the specification words it\<close>

text \<open>
  The text a rule's keywords are looked up in, as the specification has it: the
  description concatenated with the account (the empty string if absent), lower-cased.
\<close>

definition spec_haystack :: "Tx \<Rightarrow> string" where
  "spec_haystack t =
     toLowerCase (description t @ (case account t of None \<Rightarrow> [] | Some a \<Rightarrow> a))"

text \<open>A rule matches a text when one of its keywords is a substring of it.\<close>

definition spec_matches :: "string \<Rightarrow> Rule \<Rightarrow> bool" where
  "spec_matches hay rule = (\<exists>k \<in> set (kws rule). sublist k hay)"

text \<open>
  A categorized transaction passes through; an uncategorized one takes the category of
  the first rule, in the order given, that matches its text, and stays as it is when
  none does. The text is a parameter.
\<close>

definition spec_classify :: "(Tx \<Rightarrow> string) \<Rightarrow> Rule list \<Rightarrow> Tx \<Rightarrow> Tx" where
  "spec_classify hay r t =
     (if truthyStr (category t) then t
      else (case find (spec_matches (hay t)) r of
              None \<Rightarrow> t
            | Some rule \<Rightarrow> t\<lparr>category := Some (ruleCategory rule)\<rparr>))"

subsection \<open>The grammar of numeric strings, stated on its own\<close>

text \<open>
  What the strings are that \<^verbatim>\<open>Number\<close> reads, and the value of each, as relations that
  do not compute: an exponent part and its value; a decimal literal without sign and
  its value; a trimmed string and the number it stands for. A string that stands for
  no number is one \<^verbatim>\<open>Number\<close> cannot read.
\<close>

definition spec_exponent :: "string \<Rightarrow> int \<Rightarrow> bool" where
  "spec_exponent ex e =
     (ex = [] \<and> e = 0 \<or>
      (\<exists>c ds. c \<in> set ''eE'' \<and> ds \<noteq> [] \<and> list_all isDigit ds \<and>
         (ex = c # ds \<and> e = int (digitsVal ds) \<or>
          ex = c # CHR ''+'' # ds \<and> e = int (digitsVal ds) \<or>
          ex = c # CHR ''-'' # ds \<and> e = - int (digitsVal ds))))"

definition spec_unsignedDecimal :: "string \<Rightarrow> real \<Rightarrow> bool" where
  "spec_unsignedDecimal u v =
     (\<exists>ip fr fp ex e.
        u = ip @ fr @ ex \<and> list_all isDigit ip \<and> list_all isDigit fp \<and>
        (fr = [] \<and> fp = [] \<or> fr = CHR ''.'' # fp) \<and> (ip \<noteq> [] \<or> fp \<noteq> []) \<and>
        spec_exponent ex e \<and>
        v = (real (digitsVal ip) + real (digitsVal fp) / 10 ^ length fp) *
            (if 0 \<le> e then 10 ^ nat e else 1 / 10 ^ nat (- e)))"

definition spec_Number :: "string \<Rightarrow> jsnum \<Rightarrow> bool" where
  "spec_Number t n =
     (t = [] \<and> n = Num 0 \<or>
      (\<exists>x ds b. t = CHR ''0'' # x # ds \<and>
         (x \<in> set ''bB'' \<and> b = 2 \<or> x \<in> set ''oO'' \<and> b = 8 \<or> x \<in> set ''xX'' \<and> b = 16) \<and>
         ds \<noteq> [] \<and> list_all (\<lambda>c. baseDigit c < b) ds \<and>
         n = Num (real (foldl (\<lambda>k c. b * k + baseDigit c) 0 ds))) \<or>
      (\<exists>v. spec_unsignedDecimal t v \<and> n = Num v) \<or>
      (\<exists>u v. t = CHR ''+'' # u \<and> spec_unsignedDecimal u v \<and> n = Num v) \<or>
      (\<exists>u v. t = CHR ''-'' # u \<and> spec_unsignedDecimal u v \<and> n = Num (- v)) \<or>
      (t = ''Infinity'' \<or> t = ''+Infinity'') \<and> n = PosInfinity \<or>
      t = ''-Infinity'' \<and> n = NegInfinity)"

subsection \<open>The amount as the specification words it\<close>

text \<open>
  A plain decimal number: an optional sign, digits, and optionally a point and digits,
  with a digit somewhere; and its value.
\<close>

definition spec_plainDecimal :: "string \<Rightarrow> real option" where
  "spec_plainDecimal t =
     (let signed = (t \<noteq> [] \<and> (hd t = CHR ''-'' \<or> hd t = CHR ''+''));
          u = (if signed then tl t else t);
          ip = takeWhile isDigit u;
          r = dropWhile isDigit u;
          fp = (if r = [] then [] else tl r)
      in if (r = [] \<or> hd r = CHR ''.'') \<and> list_all isDigit fp \<and> (ip \<noteq> [] \<or> fp \<noteq> [])
         then Some ((if signed \<and> hd t = CHR ''-'' then - 1 else 1) *
                    (real (digitsVal ip) + real (digitsVal fp) / 10 ^ length fp))
         else None)"

text \<open>
  The amount of a cell as the specification has it: the separators are normalized, the
  string is parsed as a plain decimal number, and an unparseable amount is 0.
\<close>

definition spec_amount :: "string option \<Rightarrow> jsnum" where
  "spec_amount rawAmount =
     (case rawAmount of
        None \<Rightarrow> Num 0
      | Some cell \<Rightarrow>
          (case spec_plainDecimal (trim (amountString cell)) of
             None \<Rightarrow> Num 0
           | Some v \<Rightarrow> Num v))"

subsection \<open>Example data\<close>

text \<open>Rules and transactions on which the theorems below are instantiated.\<close>

definition exRuleUber :: Rule where
  "exRuleUber = \<lparr>ruleId = ''r1'', ruleKeywords = ''iFood, Uber , ,'',
     ruleCategory = ''Transporte'', enabled = True, priority = 10\<rparr>"

definition exRuleTrip :: Rule where
  "exRuleTrip = \<lparr>ruleId = ''r2'', ruleKeywords = ''trip'',
     ruleCategory = ''Lazer'', enabled = True, priority = 20\<rparr>"

definition exRuleOff :: Rule where
  "exRuleOff = \<lparr>ruleId = ''r3'', ruleKeywords = ''uber'',
     ruleCategory = ''Outros'', enabled = False, priority = 1\<rparr>"

definition exTxUber :: Tx where
  "exTxUber = \<lparr>txId = ''a'', date = ''2025-09-02'', amount = - 20,
     description = ''UBER *TRIP'', account = None, txMethod = None, category = None,
     raw = None\<rparr>"

definition exTxManual :: Tx where
  "exTxManual = \<lparr>txId = ''b'', date = ''2025-09-03'', amount = - 35,
     description = ''Uber trip'', account = None, txMethod = None,
     category = Some ''Lazer'', raw = None\<rparr>"

definition exTxBakery :: Tx where
  "exTxBakery = \<lparr>txId = ''c'', date = ''2025-09-04'', amount = - 8,
     description = ''Padaria'', account = Some ''Nubank'', txMethod = None,
     category = Some [], raw = None\<rparr>"

text \<open>The two transactions of the specification's aggregation example.\<close>

definition exTxSalary :: Tx where
  "exTxSalary = \<lparr>txId = ''d'', date = ''2025-09-01'', amount = 1000,
     description = ''Salary'', account = None, txMethod = None, category = None,
     raw = None\<rparr>"

definition exTxFood :: Tx where
  "exTxFood = \<lparr>txId = ''e'', date = ''2025-09-02'', amount = - 200,
     description = ''Market'', account = None, txMethod = None, category = Some ''Food'',
     raw = None\<rparr>"

text \<open>A budget and a month's spend by category, with the figures of the specification's example.\<close>

definition exBudget :: Budget where
  "exBudget = [''Moradia'' \<mapsto> 0.5]"

definition exGastos :: "string \<rightharpoonup> real" where
  "exGastos = [''Moradia'' \<mapsto> 600, ''Lazer'' \<mapsto> 5]"

text \<open>Two expenses whose category names a property every object inherits.\<close>

definition exTxConstructor :: Tx where
  "exTxConstructor = \<lparr>txId = ''f'', date = ''2025-09-05'', amount = - 7,
     description = ''Builder'', account = None, txMethod = None,
     category = Some ''constructor'', raw = None\<rparr>"

definition exTxProto :: Tx where
  "exTxProto = \<lparr>txId = ''g'', date = ''2025-09-06'', amount = - 9,
     description = ''Prototype'', account = None, txMethod = None,
     category = Some ''__proto__'', raw = None\<rparr>"

lemmas example_defs =
  exRuleUber_def exRuleTrip_def exRuleOff_def exTxUber_def exTxManual_def exTxBakery_def
  exTxSalary_def exTxFood_def exTxConstructor_def exTxProto_def

lemmas string_defs = trim_def isSpace_def toLowerCase_def toLowerChar_def

lemmas rule_engine_defs =
  applyRulesNext_def activeRules_def applyRulesTx_def truthyStr_def descOf_def kws_def

section \<open>The rule engine\<close>

lemma includes_str_sublist: "includes_str s k \<longleftrightarrow> sublist k s"
  by (induction s) (simp_all add: sublist_Cons_right)

text \<open>The loop over the rules finds the first rule that matches.\<close>

lemma ruleLoop_find:
  "ruleLoop t d r =
     (case find (\<lambda>rule. list_ex (\<lambda>k. includes_str d k) (kws rule)) r of
        None \<Rightarrow> t
      | Some rule \<Rightarrow> t\<lparr>category := Some (ruleCategory rule)\<rparr>)"
  by (induction r) simp_all

lemma descOf_category_update [simp]: "descOf (t\<lparr>category := c\<rparr>) = descOf t"
  by (simp add: descOf_def)

lemma applyRulesTx_categorized:
  "category t = Some c \<Longrightarrow> c \<noteq> [] \<Longrightarrow> applyRulesTx r t = t"
  by (simp add: applyRulesTx_def truthyStr_def)

lemma applyRulesTx_idem: "applyRulesTx r (applyRulesTx r t) = applyRulesTx r t"
  by (cases "truthyStr (category t)")
     (auto simp: applyRulesTx_def ruleLoop_find split: option.splits)

lemma list_ex_includes_spec_matches:
  "list_ex (\<lambda>k. includes_str d k) (kws rule) = spec_matches d rule"
  by (simp add: spec_matches_def list_ex_iff includes_str_sublist)

lemma applyRulesTx_spec_classify: "applyRulesTx r t = spec_classify descOf r t"
  by (simp add: applyRulesTx_def spec_classify_def ruleLoop_find list_ex_includes_spec_matches)

lemma spec_classify_shape:
  "spec_classify hay r t = t \<or> (\<exists>c. spec_classify hay r t = t\<lparr>category := Some c\<rparr>)"
  by (auto simp: spec_classify_def split: option.splits)

lemma activeRules_set: "set (activeRules R) = {x \<in> set R. enabled x}"
  by (auto simp: activeRules_def)

lemma activeRules_sorted: "sorted (map priority (activeRules R))"
  by (simp add: activeRules_def)

lemma activeRules_stable:
  "filter (\<lambda>x. priority x = p) (activeRules R) =
   filter (\<lambda>x. priority x = p) (filter enabled R)"
  unfolding activeRules_def by (rule sort_key_stable)

lemma example_applyRulesNext:
  "applyRulesNext [exRuleOff, exRuleTrip, exRuleUber] [exTxUber, exTxManual, exTxBakery] =
     [exTxUber\<lparr>category := Some ''Transporte''\<rparr>, exTxManual, exTxBakery]"
  by (simp add: rule_engine_defs string_defs example_defs)

text \<open>
  C1. A transaction whose category is a non-empty string comes out of \<^verbatim>\<open>applyRules\<close>
  as it went in, at the same place of the list, whatever the rules are: the rules never
  replace a category that is set. The list is the argument, or the stored transactions
  when there is no argument.
\<close>

theorem applyRules_keeps_categorized:
  assumes "list = (case toUpdate of None \<Rightarrow> tx st | Some l \<Rightarrow> l)"
    and "i < length list"
    and "category (list ! i) = Some c"
    and "c \<noteq> []"
  shows "length (tx (applyRules st toUpdate)) = length list \<and>
         tx (applyRules st toUpdate) ! i = list ! i"
  using assms by (simp add: applyRules_def applyRulesNext_def applyRulesTx_categorized)

theorem applyRules_keeps_categorized_witness:
  "length (tx (applyRules \<lparr>tx = [exTxUber, exTxManual], budget = Map.empty,
                           rules = [exRuleUber]\<rparr> None)) = 2 \<and>
   tx (applyRules \<lparr>tx = [exTxUber, exTxManual], budget = Map.empty,
                   rules = [exRuleUber]\<rparr> None) ! 1 = exTxManual"
  using applyRules_keeps_categorized
    [where list = "[exTxUber, exTxManual]" and toUpdate = None
       and st = "\<lparr>tx = [exTxUber, exTxManual], budget = Map.empty, rules = [exRuleUber]\<rparr>"
       and i = 1 and c = "''Lazer''"]
  by (simp add: exTxManual_def)

text \<open>
  C2. The rule engine is idempotent: applied to its own result with the same rules, it
  returns that result, both as a function of the list and as the state transition
  \<^verbatim>\<open>applyRules\<close> called a second time on the stored transactions.
\<close>

theorem applyRules_idempotent:
  "applyRulesNext R (applyRulesNext R T) = applyRulesNext R T \<and>
   applyRules (applyRules st toUpdate) None = applyRules st toUpdate"
  by (simp add: applyRules_def applyRulesNext_def applyRulesTx_idem)

theorem applyRules_idempotent_witness:
  "applyRulesNext [exRuleOff, exRuleTrip, exRuleUber]
     (applyRulesNext [exRuleOff, exRuleTrip, exRuleUber] [exTxUber, exTxManual, exTxBakery]) =
   [exTxUber\<lparr>category := Some ''Transporte''\<rparr>, exTxManual, exTxBakery]"
  using applyRules_idempotent
    [of "[exRuleOff, exRuleTrip, exRuleUber]" "[exTxUber, exTxManual, exTxBakery]"]
  by (simp only: example_applyRulesNext)

text \<open>
  C3, as amended. \<^verbatim>\<open>applyRules\<close> returns a list of the same length and order, each
  element unchanged or with only its category filled in. The rules used are those with
  \<open>enabled\<close>, sorted by ascending priority, rules of equal priority in their input order.
  An uncategorized transaction takes the category of the first of these rules one of
  whose keywords (split at commas, trimmed, lower-cased, empty ones dropped) is a
  substring of the lower-cased text made of the description, one space, and the account
  (the empty string if absent); it stays as it is when no rule matches.
\<close>

theorem applyRules_classifies:
  "length (applyRulesNext R T) = length T \<and>
   (\<forall>i < length T.
      applyRulesNext R T ! i = spec_classify descOf (activeRules R) (T ! i) \<and>
      (applyRulesNext R T ! i = T ! i \<or>
       (\<exists>c. applyRulesNext R T ! i = (T ! i)\<lparr>category := Some c\<rparr>))) \<and>
   set (activeRules R) = {x \<in> set R. enabled x} \<and>
   sorted (map priority (activeRules R)) \<and>
   (\<forall>p. filter (\<lambda>x. priority x = p) (activeRules R) =
        filter (\<lambda>x. priority x = p) (filter enabled R)) \<and>
   descOf t =
     toLowerCase (description t @ '' '' @ (case account t of None \<Rightarrow> [] | Some a \<Rightarrow> a)) \<and>
   kws rule =
     filter (\<lambda>x. x \<noteq> [])
       (map (\<lambda>x. toLowerCase (trim x)) (split_str CHR '','' (ruleKeywords rule)))"
  using spec_classify_shape[of descOf "activeRules R"]
  by (simp add: applyRulesNext_def applyRulesTx_spec_classify activeRules_set
      activeRules_sorted activeRules_stable descOf_def kws_def)

theorem applyRules_classifies_witness:
  "spec_classify descOf (activeRules [exRuleOff, exRuleTrip, exRuleUber])
     ([exTxUber, exTxManual, exTxBakery] ! 0) = exTxUber\<lparr>category := Some ''Transporte''\<rparr> \<and>
   spec_classify descOf (activeRules [exRuleOff, exRuleTrip, exRuleUber])
     ([exTxUber, exTxManual, exTxBakery] ! 2) = exTxBakery"
proof -
  note h = applyRules_classifies
    [where R = "[exRuleOff, exRuleTrip, exRuleUber]"
       and T = "[exTxUber, exTxManual, exTxBakery]",
     THEN conjunct2, THEN conjunct1, rule_format, THEN conjunct1]
  have a: "applyRulesNext [exRuleOff, exRuleTrip, exRuleUber] [exTxUber, exTxManual, exTxBakery] ! 0
      = spec_classify descOf (activeRules [exRuleOff, exRuleTrip, exRuleUber])
          ([exTxUber, exTxManual, exTxBakery] ! 0)"
    by (rule h) simp
  have b: "applyRulesNext [exRuleOff, exRuleTrip, exRuleUber] [exTxUber, exTxManual, exTxBakery] ! 2
      = spec_classify descOf (activeRules [exRuleOff, exRuleTrip, exRuleUber])
          ([exTxUber, exTxManual, exTxBakery] ! 2)"
    by (rule h) simp
  from a b show ?thesis
    by (simp only: example_applyRulesNext) simp
qed

text \<open>
  C3 as the specification states it, with the description and the account concatenated
  directly, fails: for the description \<^verbatim>\<open>UBER\<close>, the account \<^verbatim>\<open>EATS\<close> and the keyword
  \<^verbatim>\<open>ubereats\<close> the code looks the keyword up in \<^verbatim>\<open>uber eats\<close> and leaves the transaction
  uncategorized, where the specification's text \<^verbatim>\<open>ubereats\<close> contains the keyword.
\<close>

theorem applyRules_plain_concatenation_counterexample:
  "applyRulesNext
     [\<lparr>ruleId = ''r1'', ruleKeywords = ''ubereats'', ruleCategory = ''Transporte'',
       enabled = True, priority = 10\<rparr>]
     [\<lparr>txId = ''t1'', date = ''2025-09-02'', amount = - 30, description = ''UBER'',
       account = Some ''EATS'', txMethod = None, category = None, raw = None\<rparr>]
   = [\<lparr>txId = ''t1'', date = ''2025-09-02'', amount = - 30, description = ''UBER'',
       account = Some ''EATS'', txMethod = None, category = None, raw = None\<rparr>] \<and>
   map (spec_classify spec_haystack
          (activeRules
             [\<lparr>ruleId = ''r1'', ruleKeywords = ''ubereats'', ruleCategory = ''Transporte'',
               enabled = True, priority = 10\<rparr>]))
     [\<lparr>txId = ''t1'', date = ''2025-09-02'', amount = - 30, description = ''UBER'',
       account = Some ''EATS'', txMethod = None, category = None, raw = None\<rparr>]
   = [\<lparr>txId = ''t1'', date = ''2025-09-02'', amount = - 30, description = ''UBER'',
       account = Some ''EATS'', txMethod = None, category = Some ''Transporte'', raw = None\<rparr>]"
  by code_simp

section \<open>The budget table\<close>

lemma budgetRows_nth:
  "i < length DEFAULT_CATEGORIES \<Longrightarrow>
     budgetRows bud receita gastos ! i = budgetRow bud receita gastos (DEFAULT_CATEGORIES ! i)"
  by (simp add: budgetRows_def)

lemma DEFAULT_CATEGORIES_length: "length DEFAULT_CATEGORIES = 12"
  by (simp add: DEFAULT_CATEGORIES_def)

lemma DEFAULT_CATEGORIES_0: "DEFAULT_CATEGORIES ! 0 = ''Moradia''"
  by (simp add: DEFAULT_CATEGORIES_def)

lemma DEFAULT_CATEGORIES_2: "DEFAULT_CATEGORIES ! 2 = ''Transporte''"
  by (simp add: DEFAULT_CATEGORIES_def)

lemma DEFAULT_CATEGORIES_5: "DEFAULT_CATEGORIES ! 5 = ''Lazer''"
  by (simp add: DEFAULT_CATEGORIES_def)

text \<open>
  C4. On every row of the budget table the status is \<open>cinza\<close> (neutral) exactly when
  the budgeted amount and the spend are both zero; otherwise it is \<open>verde\<close> (on track)
  when the fulfillment is below 0.8, \<open>amarelo\<close> (watch) from 0.8 to 1, and \<open>vermelho\<close>
  (over) above 1. With a zero budgeted amount and a positive spend the fulfillment is 0
  and the row is \<open>verde\<close>: the over branch is not taken.
\<close>

theorem budgetRows_status:
  assumes "row \<in> set (budgetRows bud receita gastos)"
  shows "(status row = cinza \<longleftrightarrow> orcado row = 0 \<and> gasto row = 0) \<and>
         (\<not> (orcado row = 0 \<and> gasto row = 0) \<longrightarrow>
            (status row = verde \<longleftrightarrow> cumprimento row < 0.8) \<and>
            (status row = amarelo \<longleftrightarrow> 0.8 \<le> cumprimento row \<and> cumprimento row \<le> 1) \<and>
            (status row = vermelho \<longleftrightarrow> 1 < cumprimento row)) \<and>
         (orcado row = 0 \<and> 0 < gasto row \<longrightarrow> cumprimento row = 0 \<and> status row = verde)"
proof -
  from assms obtain c where row: "row = budgetRow bud receita gastos c"
    by (auto simp: budgetRows_def)
  define orc where "orc = orcado row"
  define gas where "gas = gasto row"
  define cump where "cump = cumprimento row"
  have cump: "cump = (if orc > 0 then gas / orc else 0)"
    by (simp add: cump_def orc_def gas_def row budgetRow_def Let_def)
  have st: "status row =
      (if orc = 0 \<and> gas = 0 then cinza
       else if cump < 0.8 then verde
       else if cump \<le> 1 then amarelo
       else vermelho)"
    by (simp add: cump_def orc_def gas_def row budgetRow_def Let_def)
  have neutral: "status row = cinza \<longleftrightarrow> orc = 0 \<and> gas = 0"
    by (simp add: st)
  have graded: "\<not> (orc = 0 \<and> gas = 0) \<longrightarrow>
            (status row = verde \<longleftrightarrow> cump < 0.8) \<and>
            (status row = amarelo \<longleftrightarrow> 0.8 \<le> cump \<and> cump \<le> 1) \<and>
            (status row = vermelho \<longleftrightarrow> 1 < cump)"
    by (auto simp: st)
  have unbudgeted: "orc = 0 \<and> 0 < gas \<longrightarrow> cump = 0 \<and> status row = verde"
    by (simp add: st cump)
  from neutral graded unbudgeted show ?thesis
    unfolding orc_def gas_def cump_def by blast
qed

theorem budgetRows_status_witness:
  "cumprimento (budgetRows exBudget 1000 exGastos ! 5) = 0 \<and>
   status (budgetRows exBudget 1000 exGastos ! 5) = verde \<and>
   status (budgetRows exBudget 1000 exGastos ! 0) = vermelho \<and>
   status (budgetRows exBudget 1000 exGastos ! 2) = cinza"
proof -
  have r5: "budgetRows exBudget 1000 exGastos ! 5 = budgetRow exBudget 1000 exGastos ''Lazer''"
    by (simp add: budgetRows_nth DEFAULT_CATEGORIES_length DEFAULT_CATEGORIES_5)
  have r0: "budgetRows exBudget 1000 exGastos ! 0 = budgetRow exBudget 1000 exGastos ''Moradia''"
    by (simp add: budgetRows_nth DEFAULT_CATEGORIES_length DEFAULT_CATEGORIES_0)
  have r2: "budgetRows exBudget 1000 exGastos ! 2 = budgetRow exBudget 1000 exGastos ''Transporte''"
    by (simp add: budgetRows_nth DEFAULT_CATEGORIES_length DEFAULT_CATEGORIES_2)
  have "budgetRows exBudget 1000 exGastos ! 5 \<in> set (budgetRows exBudget 1000 exGastos)"
    by (rule nth_mem) (simp add: budgetRows_def DEFAULT_CATEGORIES_length)
  from budgetRows_status[OF this]
  have "orcado (budgetRows exBudget 1000 exGastos ! 5) = 0 \<and>
        0 < gasto (budgetRows exBudget 1000 exGastos ! 5) \<longrightarrow>
        cumprimento (budgetRows exBudget 1000 exGastos ! 5) = 0 \<and>
        status (budgetRows exBudget 1000 exGastos ! 5) = verde"
    by blast
  moreover have "orcado (budgetRows exBudget 1000 exGastos ! 5) = 0"
    and "0 < gasto (budgetRows exBudget 1000 exGastos ! 5)"
    unfolding r5 by (simp_all add: budgetRow_def exBudget_def exGastos_def)
  moreover have "status (budgetRows exBudget 1000 exGastos ! 0) = vermelho"
    unfolding r0 by (simp add: budgetRow_def exBudget_def exGastos_def)
  moreover have "status (budgetRows exBudget 1000 exGastos ! 2) = cinza"
    unfolding r2 by (simp add: budgetRow_def exBudget_def exGastos_def)
  ultimately show ?thesis
    by blast
qed

text \<open>
  C5. The budget table has one row for each category of the fixed vocabulary, in its
  order; on that row the allocation is the category's fraction of the budget, or 0
  when it has none, the budgeted amount is the allocation times the month's income,
  the spend is the category's entry of the spend by category, or 0, the variance is
  the budgeted amount minus the spend, and the fulfillment is the spend over the
  budgeted amount when that is positive, and 0 otherwise.
\<close>

theorem budgetRows_fields:
  "length (budgetRows bud receita gastos) = length DEFAULT_CATEGORIES \<and>
   (\<forall>i < length DEFAULT_CATEGORIES.
      let row = budgetRows bud receita gastos ! i; c = DEFAULT_CATEGORIES ! i
      in categoria row = c \<and>
         aloc row = (case bud c of None \<Rightarrow> 0 | Some v \<Rightarrow> v) \<and>
         orcado row = aloc row * receita \<and>
         gasto row = (case gastos c of None \<Rightarrow> 0 | Some v \<Rightarrow> v) \<and>
         variancia row = orcado row - gasto row \<and>
         cumprimento row = (if orcado row > 0 then gasto row / orcado row else 0))"
  by (simp add: budgetRows_def budgetRow_def Let_def mult.commute)

theorem budgetRows_fields_witness:
  "categoria (budgetRows exBudget 1000 exGastos ! 0) = ''Moradia'' \<and>
   aloc (budgetRows exBudget 1000 exGastos ! 0) = 0.5 \<and>
   orcado (budgetRows exBudget 1000 exGastos ! 0) = 500 \<and>
   gasto (budgetRows exBudget 1000 exGastos ! 0) = 600 \<and>
   variancia (budgetRows exBudget 1000 exGastos ! 0) = - 100 \<and>
   cumprimento (budgetRows exBudget 1000 exGastos ! 0) = 1.2"
proof -
  define row where "row = budgetRows exBudget 1000 exGastos ! 0"
  have "0 < length DEFAULT_CATEGORIES"
    by (simp add: DEFAULT_CATEGORIES_length)
  from budgetRows_fields[where bud = exBudget and receita = 1000 and gastos = exGastos,
      THEN conjunct2, rule_format, OF this]
  have f: "categoria row = ''Moradia'' \<and>
      aloc row = (case exBudget ''Moradia'' of None \<Rightarrow> 0 | Some v \<Rightarrow> v) \<and>
      orcado row = aloc row * 1000 \<and>
      gasto row = (case exGastos ''Moradia'' of None \<Rightarrow> 0 | Some v \<Rightarrow> v) \<and>
      variancia row = orcado row - gasto row \<and>
      cumprimento row = (if orcado row > 0 then gasto row / orcado row else 0)"
    unfolding row_def by (simp only: Let_def DEFAULT_CATEGORIES_0)
  have al: "aloc row = 0.5"
    using f by (simp add: exBudget_def)
  have "orcado row = aloc row * 1000"
    using f by blast
  then have orc: "orcado row = 500"
    unfolding al by simp
  have gas: "gasto row = 600"
    using f by (simp add: exGastos_def)
  have "variancia row = orcado row - gasto row"
    using f by blast
  then have var: "variancia row = - 100"
    unfolding orc gas by simp
  have "cumprimento row = (if orcado row > 0 then gasto row / orcado row else 0)"
    using f by blast
  then have cu: "cumprimento row = 1.2"
    unfolding orc gas by simp
  from f al orc gas var cu show ?thesis
    unfolding row_def by blast
qed

section \<open>The aggregator\<close>

lemmas ym_defs =
  ym_def dateParse_def isoPattern_def isDigit_def digitsVal_def digitVal_def daysInMonth_def
  isLeap_def localDate_def prevDay_def showInt_def showNat.simps padStart2_def

lemma foldl_plus: "foldl (\<lambda>a b. a + f b) a0 xs = a0 + sum_list (map f xs)" for a0 :: real
  by (induction xs arbitrary: a0) simp_all

text \<open>
  The loop over the month's transactions, from any object it starts with, at a category
  that is not an inherited key and holds a number or nothing.
\<close>

lemma proto_is_inherited: "''__proto__'' \<in> set objectPrototypeKeys"
  by (simp add: objectPrototypeKeys_def)

lemma gastoStep_other:
  "categoryOrOutros t \<noteq> c \<Longrightarrow> gastoStep str inh mp t c = mp c"
  by (simp add: gastoStep_def setEntry_def Let_def)

lemma gastoStep_same:
  assumes "c \<notin> set objectPrototypeKeys" and "amount t < 0" and "categoryOrOutros t = c"
    and "mp c = None \<or> (\<exists>v. mp c = Some (NumE v))"
  shows "gastoStep str inh mp t c =
     Some (NumE ((case mp c of Some (NumE v) \<Rightarrow> v | _ \<Rightarrow> 0) + \<bar>amount t\<bar>))"
proof -
  have "c \<noteq> ''__proto__''"
    using assms(1) proto_is_inherited by blast
  with assms show ?thesis
    by (auto simp: gastoStep_def setEntry_def getEntry_def orZero_def plusNumber_def Let_def)
qed

lemma foldl_gastoStep:
  assumes "c \<notin> set objectPrototypeKeys"
    and "mp c = None \<or> (\<exists>v. mp c = Some (NumE v))"
  shows "foldl (gastoStep str inh) mp M c =
     (if \<exists>t \<in> set M. amount t < 0 \<and> categoryOrOutros t = c
      then Some (NumE ((case mp c of Some (NumE v) \<Rightarrow> v | _ \<Rightarrow> 0) +
                 sum_list (map (\<lambda>t. \<bar>amount t\<bar>)
                   (filter (\<lambda>t. amount t < 0 \<and> categoryOrOutros t = c) M))))
      else mp c)"
  using assms(2)
proof (induction M arbitrary: mp)
  case Nil
  then show ?case by simp
next
  case (Cons t M)
  show ?case
  proof (cases "amount t < 0 \<and> categoryOrOutros t = c")
    case True
    then have step: "gastoStep str inh mp t c =
        Some (NumE ((case mp c of Some (NumE v) \<Rightarrow> v | _ \<Rightarrow> 0) + \<bar>amount t\<bar>))"
      using gastoStep_same[of c t mp str inh] assms(1) Cons.prems by blast
    then have "gastoStep str inh mp t c = None \<or> (\<exists>v. gastoStep str inh mp t c = Some (NumE v))"
      by blast
    from Cons.IH[of "gastoStep str inh mp t"] this True show ?thesis
      by (simp add: step add.assoc)
  next
    case False
    then have step: "gastoStep str inh mp t c = mp c"
      by (cases "categoryOrOutros t = c") (simp_all add: gastoStep_other, simp add: gastoStep_def)
    with Cons.prems
    have "gastoStep str inh mp t c = None \<or> (\<exists>v. gastoStep str inh mp t c = Some (NumE v))"
      by simp
    from Cons.IH[of "gastoStep str inh mp t"] this False show ?thesis
      by (auto simp: step)
  qed
qed

lemma example_ym_utc:
  "ym 0 ''2025-09-01'' = ''2025-09'' \<and> ym 0 ''2025-09-02'' = ''2025-09''"
  by (simp add: ym_defs)

lemma example_txMonth_utc:
  "txMonth 0 ''2025-09'' [exTxSalary, exTxFood] = [exTxSalary, exTxFood]"
  using example_ym_utc by (simp add: txMonth_def exTxSalary_def exTxFood_def)

text \<open>
  What the code does satisfy of C6: the income, the expense and the result are the sums
  claimed, and so is the spend of every category that is not the name of a property
  inherited from \<^verbatim>\<open>Object.prototype\<close>.
\<close>

lemma aggregator_totals_ordinary:
  "receitaMes (txMonth tz month txs) =
     sum_list (map amount (filter (\<lambda>t. 0 < amount t) (txMonth tz month txs))) \<and>
   despesaMes (txMonth tz month txs) =
     sum_list (map (\<lambda>t. \<bar>amount t\<bar>) (filter (\<lambda>t. amount t < 0) (txMonth tz month txs))) \<and>
   resultadoMes (txMonth tz month txs) =
     receitaMes (txMonth tz month txs) - despesaMes (txMonth tz month txs) \<and>
   (\<forall>c. c \<notin> set objectPrototypeKeys \<longrightarrow>
     gastoPorCategoria str inh (txMonth tz month txs) c =
     (if \<exists>t \<in> set (txMonth tz month txs). amount t < 0 \<and> categoryOrOutros t = c
      then Some (NumE (sum_list (map (\<lambda>t. \<bar>amount t\<bar>)
                   (filter (\<lambda>t. amount t < 0 \<and> categoryOrOutros t = c)
                      (txMonth tz month txs)))))
      else None))"
proof -
  have "gastoPorCategoria str inh M c =
     (if \<exists>t \<in> set M. amount t < 0 \<and> categoryOrOutros t = c
      then Some (NumE (sum_list (map (\<lambda>t. \<bar>amount t\<bar>)
                   (filter (\<lambda>t. amount t < 0 \<and> categoryOrOutros t = c) M))))
      else None)"
    if "c \<notin> set objectPrototypeKeys" for c M
    using foldl_gastoStep[OF that, of Map.empty str inh M]
    by (simp add: gastoPorCategoria_def)
  then show ?thesis
    by (simp add: receitaMes_def despesaMes_def resultadoMes_def foldl_plus)
qed

lemma example_aggregator_totals:
  "receitaMes (txMonth 0 ''2025-09'' [exTxSalary, exTxFood]) = 1000 \<and>
   despesaMes (txMonth 0 ''2025-09'' [exTxSalary, exTxFood]) = 200 \<and>
   resultadoMes (txMonth 0 ''2025-09'' [exTxSalary, exTxFood]) = 800 \<and>
   gastoPorCategoria str inh (txMonth 0 ''2025-09'' [exTxSalary, exTxFood]) ''Food'' =
     Some (NumE 200) \<and>
   gastoPorCategoria str inh (txMonth 0 ''2025-09'' [exTxSalary, exTxFood]) ''Outros'' = None"
  unfolding example_txMonth_utc
  by (simp add: receitaMes_def despesaMes_def resultadoMes_def gastoPorCategoria_def
      gastoStep_def setEntry_def getEntry_def orZero_def plusNumber_def categoryOrOutros_def
      objectPrototypeKeys_def Let_def exTxSalary_def exTxFood_def)

text \<open>
  C6 fails on the code. The spend by category should map each category to the total
  absolute spend of its negative amounts. The accumulator is a plain object, so for a
  category that names an inherited property the first \<^verbatim>\<open>map[c] || 0\<close> is the inherited
  value, not 0: an expense of 7 under the category \<^verbatim>\<open>constructor\<close> leaves the text of
  the inherited function followed by \<^verbatim>\<open>7\<close> under that key, not the number 7, and an
  expense under \<^verbatim>\<open>__proto__\<close> leaves no entry at all. The expense of the month still
  counts both.
\<close>

theorem gastoPorCategoria_inherited_key:
  "amount exTxConstructor = - 7 \<and> categoryOrOutros exTxConstructor = ''constructor'' \<and>
   gastoPorCategoria str inh [exTxConstructor] ''constructor'' =
     Some (StrE (inh ''constructor'' @ str 7)) \<and>
   gastoPorCategoria str inh [exTxConstructor] ''constructor'' \<noteq> Some (NumE 7) \<and>
   amount exTxProto = - 9 \<and> categoryOrOutros exTxProto = ''__proto__'' \<and>
   gastoPorCategoria str inh [exTxProto] ''__proto__'' = None \<and>
   despesaMes [exTxConstructor, exTxProto] = 16"
  by (simp add: gastoPorCategoria_def gastoStep_def setEntry_def getEntry_def orZero_def
      plusNumber_def categoryOrOutros_def objectPrototypeKeys_def despesaMes_def Let_def
      exTxConstructor_def exTxProto_def)

text \<open>
  C7. The month's transactions should be the transactions whose date has the year and
  month of the target, in their order, as the comment on \<^verbatim>\<open>ym\<close> says (it extracts the
  year-month of an ISO date). The code does not do this west of Greenwich: \<^verbatim>\<open>ym\<close> reads
  the date as midnight UTC and takes the year and the month of that instant in local
  time, so at UTC-03:00 (the offset of Brasilia) a transaction dated the first day of a
  month is moved to the month before. The salary of 2025-09-01 is missing from
  September and shows in August, and September's income is 0.
\<close>

theorem txMonth_first_day_west_of_utc:
  "date exTxSalary = ''2025-09-01'' \<and>
   ym (- 180) ''2025-09-01'' = ''2025-08'' \<and>
   txMonth (- 180) ''2025-09'' [exTxSalary, exTxFood] = [exTxFood] \<and>
   txMonth (- 180) ''2025-08'' [exTxSalary, exTxFood] = [exTxSalary] \<and>
   receitaMes (txMonth (- 180) ''2025-09'' [exTxSalary, exTxFood]) = 0"
proof -
  have y: "ym (- 180) ''2025-09-01'' = ''2025-08''" "ym (- 180) ''2025-09-02'' = ''2025-09''"
    by (simp_all add: ym_defs)
  then show ?thesis
    by (simp add: txMonth_def receitaMes_def exTxSalary_def exTxFood_def)
qed

section \<open>The CSV import\<close>

lemmas number_defs =
  onImportCSV_amt_def amountString_def Number_def strNumericLiteral_def trim_def isSpace_def
  nonDecimal_def radix_def baseDigit_def toLowerChar_def strDecimal_def
  strUnsignedDecimal_def isDigit_def digitsVal_def digitVal_def expPart_def

lemma replaceFirst_append:
  "a \<notin> set xs \<Longrightarrow> replaceFirst a b (xs @ a # ys) = xs @ b # ys"
  by (induction xs) auto

lemma replaceFirst_pres: "P b \<Longrightarrow> list_all P xs \<Longrightarrow> list_all P (replaceFirst a b xs)"
  by (induction xs) auto

lemma dropWhile_none: "list_all (\<lambda>x. \<not> P x) xs \<Longrightarrow> dropWhile P xs = xs"
  by (cases xs) auto

lemma trim_no_space: "list_all (\<lambda>x. \<not> isSpace x) s \<Longrightarrow> trim s = s"
  by (simp add: trim_def dropWhile_none list_all_iff)

lemma isAmountChar_facts:
  assumes "isAmountChar c"
  shows "\<not> isSpace c \<and> c \<noteq> CHR ''-'' \<and> c \<noteq> CHR ''+'' \<and> radix c = None"
proof -
  have "c \<in> set ''0123456789.,''"
    using assms by (auto simp: isAmountChar_def isDigit_def)
  then have "c = CHR ''0'' \<or> c = CHR ''1'' \<or> c = CHR ''2'' \<or> c = CHR ''3'' \<or> c = CHR ''4'' \<or>
      c = CHR ''5'' \<or> c = CHR ''6'' \<or> c = CHR ''7'' \<or> c = CHR ''8'' \<or> c = CHR ''9'' \<or>
      c = CHR ''.'' \<or> c = CHR '',''"
    by simp
  then show ?thesis
    by (elim disjE) (simp_all add: isSpace_def radix_def)
qed

lemma isAmountChar_trim: "list_all isAmountChar u \<Longrightarrow> trim u = u"
  by (rule trim_no_space) (simp add: list_all_iff isAmountChar_facts)

lemma minus_not_space: "\<not> isSpace CHR ''-''"
  by (simp add: isSpace_def)

lemma isAmountChar_trim_minus: "list_all isAmountChar u \<Longrightarrow> trim (CHR ''-'' # u) = CHR ''-'' # u"
  by (rule trim_no_space) (simp add: list_all_iff isAmountChar_facts minus_not_space)

lemma amountString_both:
  assumes "trim cell = a @ '','' @ b" "CHR '','' \<notin> set a" "CHR ''.'' \<in> set (a @ b)"
  shows "amountString cell = filter (\<lambda>c. c \<noteq> CHR ''.'') a @ ''.'' @ filter (\<lambda>c. c \<noteq> CHR ''.'') b"
proof -
  have "replaceFirst CHR '','' CHR ''.'' (filter (\<lambda>c. c \<noteq> CHR ''.'') a @ CHR '','' # filter (\<lambda>c. c \<noteq> CHR ''.'') b)
        = filter (\<lambda>c. c \<noteq> CHR ''.'') a @ CHR ''.'' # filter (\<lambda>c. c \<noteq> CHR ''.'') b"
    using assms(2) by (intro replaceFirst_append) simp
  with assms show ?thesis
    by (auto simp: amountString_def Let_def)
qed

lemma amountString_comma:
  assumes "trim cell = a @ '','' @ b" "CHR '','' \<notin> set a" "CHR ''.'' \<notin> set (a @ b)"
  shows "amountString cell = a @ ''.'' @ b"
  using assms by (auto simp: amountString_def Let_def replaceFirst_append)

lemma amountString_plain:
  "CHR '','' \<notin> set (trim cell) \<Longrightarrow> amountString cell = trim cell"
  by (simp add: amountString_def Let_def)

lemma amountString_minus:
  assumes "list_all isAmountChar u"
  shows "amountString (CHR ''-'' # u) = CHR ''-'' # amountString u"
  by (simp add: amountString_def Let_def isAmountChar_trim[OF assms]
      isAmountChar_trim_minus[OF assms])

lemma isAmountChar_dot: "isAmountChar CHR ''.''"
  by (simp add: isAmountChar_def)

lemma amountString_chars:
  assumes "list_all isAmountChar u"
  shows "list_all isAmountChar (amountString u)"
proof -
  have f: "list_all isAmountChar (filter (\<lambda>c. c \<noteq> CHR ''.'') u)"
    using assms by (simp add: list_all_iff)
  show ?thesis
    unfolding amountString_def Let_def isAmountChar_trim[OF assms]
    using assms f by (simp add: replaceFirst_pres isAmountChar_dot)
qed

lemma Number_minus:
  assumes "list_all isAmountChar v"
  shows "Number (CHR ''-'' # v) = negJs (strUnsignedDecimal v)"
proof -
  have "nonDecimal (CHR ''-'' # v) = None"
    by (simp add: nonDecimal_def split: list.splits)
  then show ?thesis
    by (simp add: Number_def strNumericLiteral_def isAmountChar_trim_minus[OF assms]
        strDecimal_def)
qed

lemma Number_unsigned:
  assumes "list_all isAmountChar v"
  shows "Number v = (if v = [] then Num 0 else strUnsignedDecimal v)"
proof -
  have nd: "nonDecimal v = None"
    using assms isAmountChar_facts by (auto simp: nonDecimal_def split: list.splits option.splits)
  have sd: "strDecimal v = strUnsignedDecimal v"
    using assms isAmountChar_facts by (cases v) (auto simp: strDecimal_def)
  show ?thesis
    by (simp add: Number_def strNumericLiteral_def isAmountChar_trim[OF assms] nd sd)
qed

lemma strUnsignedDecimal_Nil: "strUnsignedDecimal [] = NaN"
  by (simp add: strUnsignedDecimal_def)

lemma negJs_NaN: "negJs n = NaN \<longleftrightarrow> n = NaN"
  by (cases n) simp_all

lemma amt_minus:
  assumes "list_all isAmountChar u"
  shows "onImportCSV_amt (Some (CHR ''-'' # u)) = negJs (onImportCSV_amt (Some u))"
proof -
  let ?v = "amountString u"
  have v: "list_all isAmountChar ?v"
    using assms by (rule amountString_chars)
  show ?thesis
    using Number_minus[OF v] Number_unsigned[OF v]
    by (cases "?v = []")
       (simp_all add: onImportCSV_amt_def Let_def amountString_minus[OF assms]
          strUnsignedDecimal_Nil negJs_NaN)
qed

lemma isDigit_cases:
  "isDigit c \<Longrightarrow> c = CHR ''0'' \<or> c = CHR ''1'' \<or> c = CHR ''2'' \<or> c = CHR ''3'' \<or>
     c = CHR ''4'' \<or> c = CHR ''5'' \<or> c = CHR ''6'' \<or> c = CHR ''7'' \<or> c = CHR ''8'' \<or>
     c = CHR ''9''"
  by (simp add: isDigit_def)

lemma isDigit_facts:
  assumes "isDigit c"
  shows "c \<noteq> CHR ''+'' \<and> c \<noteq> CHR ''-'' \<and> c \<noteq> CHR ''.'' \<and> c \<noteq> CHR ''e'' \<and> c \<noteq> CHR ''E'' \<and>
         c \<noteq> CHR ''I'' \<and> radix c = None"
  using isDigit_cases[OF assms] by (elim disjE) (simp_all add: radix_def)

lemma not_digit:
  "\<not> isDigit CHR ''.''" "\<not> isDigit CHR ''e''" "\<not> isDigit CHR ''E''" "\<not> isDigit CHR ''+''"
  "\<not> isDigit CHR ''-''" "\<not> isDigit CHR ''I''"
  by (simp_all add: isDigit_def)

lemma span_digits:
  "list_all isDigit xs \<Longrightarrow> ys = [] \<or> \<not> isDigit (hd ys) \<Longrightarrow>
   takeWhile isDigit (xs @ ys) = xs \<and> dropWhile isDigit (xs @ ys) = ys"
  by (induction xs) (auto simp: takeWhile_eq_Nil_iff dropWhile_eq_self_iff)

lemma digits_takeWhile: "list_all isDigit (takeWhile isDigit u)"
  by (induction u) auto

text \<open>The exponent part.\<close>

lemma expPart_spec: "expPart ex = Some e \<longleftrightarrow> spec_exponent ex e"
proof
  assume h: "expPart ex = Some e"
  show "spec_exponent ex e"
  proof (cases ex)
    case Nil
    with h show ?thesis by (simp add: expPart_def spec_exponent_def)
  next
    case (Cons c r1)
    with h have c: "c \<in> set ''eE''"
      by (auto simp: expPart_def split: if_splits)
    show ?thesis
    proof (cases r1)
      case Nil
      with h Cons c show ?thesis by (auto simp: expPart_def Let_def split: if_splits)
    next
      case r1: (Cons d ds)
      consider "d = CHR ''-''" | "d = CHR ''+''" | "d \<noteq> CHR ''-''" "d \<noteq> CHR ''+''"
        by blast
      then show ?thesis
      proof cases
        case 1
        with h Cons r1 c have "ds \<noteq> [] \<and> list_all isDigit ds \<and> e = - int (digitsVal ds)"
          by (auto simp: expPart_def Let_def split: if_splits)
        with Cons r1 1 c show ?thesis
          unfolding spec_exponent_def by blast
      next
        case 2
        with h Cons r1 c have "ds \<noteq> [] \<and> list_all isDigit ds \<and> e = int (digitsVal ds)"
          by (auto simp: expPart_def Let_def split: if_splits)
        with Cons r1 2 c show ?thesis
          unfolding spec_exponent_def by blast
      next
        case 3
        with h Cons r1 c have "list_all isDigit r1 \<and> e = int (digitsVal r1)"
          by (auto simp: expPart_def Let_def split: if_splits)
        with Cons r1 c show ?thesis
          unfolding spec_exponent_def by blast
      qed
    qed
  qed
next
  assume "spec_exponent ex e"
  then consider "ex = []" "e = 0"
    | c ds where "c \<in> set ''eE''" "ds \<noteq> []" "list_all isDigit ds" "ex = c # ds"
        "e = int (digitsVal ds)"
    | c ds where "c \<in> set ''eE''" "ds \<noteq> []" "list_all isDigit ds" "ex = c # CHR ''+'' # ds"
        "e = int (digitsVal ds)"
    | c ds where "c \<in> set ''eE''" "ds \<noteq> []" "list_all isDigit ds" "ex = c # CHR ''-'' # ds"
        "e = - int (digitsVal ds)"
    unfolding spec_exponent_def by blast
  then show "expPart ex = Some e"
  proof cases
    case 1
    then show ?thesis by (simp add: expPart_def)
  next
    case 2
    then obtain d ds' where ds: "ds = d # ds'" "isDigit d"
      by (cases ds) auto
    with isDigit_facts[of d] have "d \<noteq> CHR ''-''" "d \<noteq> CHR ''+''"
      by simp_all
    with 2 ds show ?thesis
      by (auto simp: expPart_def Let_def)
  next
    case 3
    then show ?thesis by (auto simp: expPart_def Let_def)
  next
    case 4
    then show ?thesis by (auto simp: expPart_def Let_def)
  qed
qed

lemma spec_exponent_head: "spec_exponent ex e \<Longrightarrow> ex = [] \<or> \<not> isDigit (hd ex) \<and> hd ex \<noteq> CHR ''.''"
  unfolding spec_exponent_def by (auto simp: not_digit)

text \<open>The decimal literal without sign.\<close>

lemma strUnsignedDecimal_spec_from:
  assumes "spec_unsignedDecimal u v"
  shows "strUnsignedDecimal u = Num v"
proof -
  from assms obtain ip fr fp ex e where
    u: "u = ip @ fr @ ex" and ip: "list_all isDigit ip" and fp: "list_all isDigit fp"
    and fr: "fr = [] \<and> fp = [] \<or> fr = CHR ''.'' # fp" and ne: "ip \<noteq> [] \<or> fp \<noteq> []"
    and ex: "spec_exponent ex e"
    and v: "v = (real (digitsVal ip) + real (digitsVal fp) / 10 ^ length fp) *
            (if 0 \<le> e then 10 ^ nat e else 1 / 10 ^ nat (- e))"
    unfolding spec_unsignedDecimal_def by blast
  have exh: "ex = [] \<or> \<not> isDigit (hd ex) \<and> hd ex \<noteq> CHR ''.''"
    using ex by (rule spec_exponent_head)
  have exp: "expPart ex = Some e"
    using ex by (simp add: expPart_spec)
  have "fr @ ex = [] \<or> \<not> isDigit (hd (fr @ ex))"
    using fr exh by (auto simp: not_digit)
  from span_digits[OF ip this]
  have tk: "takeWhile isDigit u = ip" and dr: "dropWhile isDigit u = fr @ ex"
    by (simp_all add: u)
  have inf: "u \<noteq> ''Infinity''"
  proof
    assume "u = ''Infinity''"
    then have "takeWhile isDigit u = []" "dropWhile isDigit u = ''Infinity''"
      by (simp_all add: not_digit)
    with tk dr fr ne show False
      by auto
  qed
  from fr show ?thesis
  proof
    assume a: "fr = [] \<and> fp = []"
    then have "ex = [] \<or> hd ex \<noteq> CHR ''.''"
      using exh by blast
    with a tk dr inf ne exp v show ?thesis
      by (auto simp: strUnsignedDecimal_def Let_def)
  next
    assume a: "fr = CHR ''.'' # fp"
    have "ex = [] \<or> \<not> isDigit (hd ex)"
      using exh by blast
    from span_digits[OF fp this]
    have "takeWhile isDigit (fp @ ex) = fp" "dropWhile isDigit (fp @ ex) = ex"
      by simp_all
    with a tk dr inf ne exp v show ?thesis
      by (auto simp: strUnsignedDecimal_def Let_def)
  qed
qed

lemma strUnsignedDecimal_spec_to:
  assumes "strUnsignedDecimal u = Num v"
  shows "spec_unsignedDecimal u v"
proof -
  define ip where "ip = takeWhile isDigit u"
  define r1 where "r1 = dropWhile isDigit u"
  have u: "u = ip @ r1"
    by (simp add: ip_def r1_def)
  have ip: "list_all isDigit ip"
    by (simp add: ip_def digits_takeWhile)
  have inf: "u \<noteq> ''Infinity''"
    using assms by (auto simp: strUnsignedDecimal_def)
  show ?thesis
  proof (cases "r1 \<noteq> [] \<and> hd r1 = CHR ''.''")
    case True
    define fp where "fp = takeWhile isDigit (tl r1)"
    define r2 where "r2 = dropWhile isDigit (tl r1)"
    have r1: "r1 = CHR ''.'' # fp @ r2"
      using True by (cases r1) (simp_all add: fp_def r2_def)
    have fp: "list_all isDigit fp"
      by (simp add: fp_def digits_takeWhile)
    from assms inf True obtain e where
      ne: "ip \<noteq> [] \<or> fp \<noteq> []" and e: "expPart r2 = Some e"
      and v: "v = (real (digitsVal ip) + real (digitsVal fp) / 10 ^ length fp) *
            (if 0 \<le> e then 10 ^ nat e else 1 / 10 ^ nat (- e))"
      unfolding strUnsignedDecimal_def Let_def ip_def[symmetric] r1_def[symmetric]
      by (simp add: fp_def[symmetric] r2_def[symmetric] split: if_splits option.splits)
    have "spec_exponent r2 e"
      using e by (simp add: expPart_spec)
    with u r1 ip fp ne v show ?thesis
      unfolding spec_unsignedDecimal_def
      by (intro exI[of _ ip] exI[of _ "CHR ''.'' # fp"] exI[of _ fp] exI[of _ r2] exI[of _ e])
         simp
  next
    case False
    from assms inf False obtain e where
      ne: "ip \<noteq> []" and e: "expPart r1 = Some e"
      and v: "v = (real (digitsVal ip) + real (digitsVal []) / 10 ^ length ([] :: string)) *
            (if 0 \<le> e then 10 ^ nat e else 1 / 10 ^ nat (- e))"
      unfolding strUnsignedDecimal_def Let_def ip_def[symmetric] r1_def[symmetric]
      by (simp split: if_splits option.splits)
    have "spec_exponent r1 e"
      using e by (simp add: expPart_spec)
    with u ip ne v show ?thesis
      unfolding spec_unsignedDecimal_def
      by (intro exI[of _ ip] exI[of _ "[]"] exI[of _ "[]"] exI[of _ r1] exI[of _ e]) simp
  qed
qed

lemma strUnsignedDecimal_spec: "strUnsignedDecimal u = Num v \<longleftrightarrow> spec_unsignedDecimal u v"
  using strUnsignedDecimal_spec_from strUnsignedDecimal_spec_to by blast

lemma strUnsignedDecimal_Infinity: "strUnsignedDecimal u = PosInfinity \<longleftrightarrow> u = ''Infinity''"
  by (auto simp: strUnsignedDecimal_def Let_def split: option.splits)

lemma strUnsignedDecimal_not_NegInfinity: "strUnsignedDecimal u \<noteq> NegInfinity"
  by (auto simp: strUnsignedDecimal_def Let_def split: option.splits)

text \<open>The literal as a whole.\<close>

lemma radix_cases:
  "radix x = Some b \<longleftrightarrow>
     (x \<in> set ''bB'' \<and> b = 2 \<or> x \<in> set ''oO'' \<and> b = 8 \<or> x \<in> set ''xX'' \<and> b = 16)"
  by (auto simp: radix_def)

lemma radix_not_decimal:
  assumes "radix x = Some b"
  shows "strUnsignedDecimal (CHR ''0'' # x # ds) = NaN"
proof -
  from assms have "x = CHR ''b'' \<or> x = CHR ''B'' \<or> x = CHR ''o'' \<or> x = CHR ''O'' \<or>
      x = CHR ''x'' \<or> x = CHR ''X''"
    by (auto simp: radix_cases)
  then show ?thesis
    by (elim disjE) (simp_all add: strUnsignedDecimal_def isDigit_def expPart_def)
qed

lemma sign_not_decimal:
  "strUnsignedDecimal (CHR ''+'' # u) = NaN" "strUnsignedDecimal (CHR ''-'' # u) = NaN"
  by (simp_all add: strUnsignedDecimal_def isDigit_def)

lemma strNumericLiteral_unsigned:
  assumes "strUnsignedDecimal t = n" and "n \<noteq> NaN"
  shows "strNumericLiteral t = n"
proof -
  have ne: "t \<noteq> []"
    using assms strUnsignedDecimal_Nil by auto
  have nd: "nonDecimal t = None"
  proof (rule ccontr)
    assume "nonDecimal t \<noteq> None"
    then obtain x ds b where "t = CHR ''0'' # x # ds" "radix x = Some b"
      by (auto simp: nonDecimal_def split: list.splits if_splits option.splits)
    with radix_not_decimal assms show False
      by auto
  qed
  have "strDecimal t = strUnsignedDecimal t"
    using assms sign_not_decimal by (cases t) (auto simp: strDecimal_def)
  with ne nd assms show ?thesis
    by (simp add: strNumericLiteral_def)
qed

lemma strNumericLiteral_signed:
  "strNumericLiteral (CHR ''+'' # u) = strUnsignedDecimal u"
  "strNumericLiteral (CHR ''-'' # u) = negJs (strUnsignedDecimal u)"
  by (simp_all add: strNumericLiteral_def nonDecimal_def strDecimal_def split: list.splits)

lemma spec_Number_radix:
  "t = CHR ''0'' # x # ds \<Longrightarrow> radix x = Some b \<Longrightarrow> ds \<noteq> [] \<Longrightarrow>
   list_all (\<lambda>c. baseDigit c < b) ds \<Longrightarrow>
   n = Num (real (foldl (\<lambda>k c. b * k + baseDigit c) 0 ds)) \<Longrightarrow> spec_Number t n"
  unfolding spec_Number_def radix_cases
  by (rule disjI2, rule disjI1) (intro exI[of _ x] exI[of _ ds] exI[of _ b], simp)

lemma spec_Number_plain: "spec_unsignedDecimal t v \<Longrightarrow> n = Num v \<Longrightarrow> spec_Number t n"
  unfolding spec_Number_def
  by (rule disjI2, rule disjI2, rule disjI1) blast

lemma spec_Number_plus:
  "t = CHR ''+'' # u \<Longrightarrow> spec_unsignedDecimal u v \<Longrightarrow> n = Num v \<Longrightarrow> spec_Number t n"
  unfolding spec_Number_def
  by (rule disjI2, rule disjI2, rule disjI2, rule disjI1) blast

lemma spec_Number_minus:
  "t = CHR ''-'' # u \<Longrightarrow> spec_unsignedDecimal u v \<Longrightarrow> n = Num (- v) \<Longrightarrow> spec_Number t n"
  unfolding spec_Number_def
  by (rule disjI2, rule disjI2, rule disjI2, rule disjI2, rule disjI1) blast

lemma spec_Number_inf:
  "t = ''Infinity'' \<or> t = ''+Infinity'' \<Longrightarrow> n = PosInfinity \<Longrightarrow> spec_Number t n"
  unfolding spec_Number_def
  by (rule disjI2, rule disjI2, rule disjI2, rule disjI2, rule disjI2, rule disjI1) blast

lemma spec_Number_ninf: "t = ''-Infinity'' \<Longrightarrow> n = NegInfinity \<Longrightarrow> spec_Number t n"
  unfolding spec_Number_def
  by (rule disjI2, rule disjI2, rule disjI2, rule disjI2, rule disjI2, rule disjI2) blast

lemma spec_Number_cases:
  assumes "spec_Number t n"
  obtains
      (empty) "t = []" "n = Num 0"
    | (radix) x ds b where "t = CHR ''0'' # x # ds" "radix x = Some b" "ds \<noteq> []"
        "list_all (\<lambda>c. baseDigit c < b) ds"
        "n = Num (real (foldl (\<lambda>k c. b * k + baseDigit c) 0 ds))"
    | (plain) v where "spec_unsignedDecimal t v" "n = Num v"
    | (plus) u v where "t = CHR ''+'' # u" "spec_unsignedDecimal u v" "n = Num v"
    | (minus) u v where "t = CHR ''-'' # u" "spec_unsignedDecimal u v" "n = Num (- v)"
    | (inf) "t = ''Infinity'' \<or> t = ''+Infinity''" "n = PosInfinity"
    | (ninf) "t = ''-Infinity''" "n = NegInfinity"
  using assms unfolding spec_Number_def radix_cases[symmetric]
  by (elim disjE exE conjE) (blast+)

lemma strNumericLiteral_spec:
  "spec_Number t n \<longleftrightarrow> strNumericLiteral t = n \<and> n \<noteq> NaN"
proof
  assume "spec_Number t n"
  then show "strNumericLiteral t = n \<and> n \<noteq> NaN"
  proof (cases rule: spec_Number_cases)
    case empty
    then show ?thesis by (simp add: strNumericLiteral_def)
  next
    case (radix x ds b)
    then show ?thesis by (simp add: strNumericLiteral_def nonDecimal_def)
  next
    case (plain v)
    then have "strUnsignedDecimal t = Num v"
      by (simp add: strUnsignedDecimal_spec)
    with plain strNumericLiteral_unsigned[of t n] show ?thesis
      by simp
  next
    case (plus u v)
    then show ?thesis
      by (simp add: strNumericLiteral_signed strUnsignedDecimal_spec_from)
  next
    case (minus u v)
    then show ?thesis
      by (simp add: strNumericLiteral_signed strUnsignedDecimal_spec_from)
  next
    case inf
    then show ?thesis
      by (auto simp: strNumericLiteral_def nonDecimal_def strDecimal_def strUnsignedDecimal_def)
  next
    case ninf
    then show ?thesis
      by (auto simp: strNumericLiteral_def nonDecimal_def strDecimal_def strUnsignedDecimal_def)
  qed
next
  assume h: "strNumericLiteral t = n \<and> n \<noteq> NaN"
  show "spec_Number t n"
  proof (cases "t = []")
    case True
    with h show ?thesis
      by (simp add: strNumericLiteral_def spec_Number_def)
  next
    case ne: False
    show ?thesis
    proof (cases "nonDecimal t")
      case (Some m)
      then obtain x ds b where t: "t = CHR ''0'' # x # ds" and b: "radix x = Some b"
        and m: "m = (if ds \<noteq> [] \<and> list_all (\<lambda>c. baseDigit c < b) ds
                then Num (real (foldl (\<lambda>n c. b * n + baseDigit c) 0 ds)) else NaN)"
        by (auto simp: nonDecimal_def split: list.splits if_splits option.splits)
      from h ne Some have "n = m"
        by (simp add: strNumericLiteral_def)
      with h m have "ds \<noteq> []" "list_all (\<lambda>c. baseDigit c < b) ds"
        "n = Num (real (foldl (\<lambda>n c. b * n + baseDigit c) 0 ds))"
        by (auto split: if_splits)
      with t b show ?thesis
        by (intro spec_Number_radix)
    next
      case None
      with h ne have sd: "strDecimal t = n"
        by (simp add: strNumericLiteral_def)
      from ne obtain c u where t: "t = c # u"
        by (cases t) auto
      consider "c = CHR ''+''" | "c = CHR ''-''" | "c \<noteq> CHR ''+''" "c \<noteq> CHR ''-''"
        by blast
      then show ?thesis
      proof cases
        case 1
        with sd t have su: "strUnsignedDecimal u = n"
          by (simp add: strDecimal_def)
        show ?thesis
        proof (cases n)
          case NaN
          with h show ?thesis by simp
        next
          case (Num v)
          with su have "spec_unsignedDecimal u v"
            by (simp add: strUnsignedDecimal_spec)
          with t 1 Num show ?thesis
            by (intro spec_Number_plus) auto
        next
          case PosInfinity
          with su have "u = ''Infinity''"
            by (simp add: strUnsignedDecimal_Infinity)
          with t 1 PosInfinity show ?thesis
            by (intro spec_Number_inf) auto
        next
          case NegInfinity
          with su strUnsignedDecimal_not_NegInfinity show ?thesis
            by auto
        qed
      next
        case 2
        with sd t have su: "negJs (strUnsignedDecimal u) = n"
          by (simp add: strDecimal_def)
        show ?thesis
        proof (cases "strUnsignedDecimal u")
          case NaN
          with su h show ?thesis by simp
        next
          case (Num v)
          then have "spec_unsignedDecimal u v"
            by (simp add: strUnsignedDecimal_spec)
          moreover from su Num have "n = Num (- v)"
            by simp
          ultimately show ?thesis
            using t 2 by (intro spec_Number_minus) auto
        next
          case PosInfinity
          then have "u = ''Infinity''"
            by (simp add: strUnsignedDecimal_Infinity)
          moreover from su PosInfinity have "n = NegInfinity"
            by simp
          ultimately show ?thesis
            using t 2 by (intro spec_Number_ninf) auto
        next
          case NegInfinity
          with strUnsignedDecimal_not_NegInfinity show ?thesis
            by auto
        qed
      next
        case 3
        with sd t have su: "strUnsignedDecimal t = n"
          by (simp add: strDecimal_def)
        show ?thesis
        proof (cases n)
          case NaN
          with h show ?thesis by simp
        next
          case (Num v)
          with su have "spec_unsignedDecimal t v"
            by (simp add: strUnsignedDecimal_spec)
          with Num show ?thesis
            by (intro spec_Number_plain) auto
        next
          case PosInfinity
          with su have "t = ''Infinity''"
            by (simp add: strUnsignedDecimal_Infinity)
          with PosInfinity show ?thesis
            by (intro spec_Number_inf) auto
        next
          case NegInfinity
          with su strUnsignedDecimal_not_NegInfinity show ?thesis
            by auto
        qed
      qed
    qed
  qed
qed

lemma Number_spec: "spec_Number (trim s) n \<longleftrightarrow> Number s = n \<and> n \<noteq> NaN"
  by (simp add: Number_def strNumericLiteral_spec)

lemma example_amounts:
  "onImportCSV_amt (Some ''723,11'') = Num 723.11"
  "onImportCSV_amt (Some ''250.30'') = Num 250.30"
  "onImportCSV_amt (Some ''1,234,567.89'') = Num 0"
  "onImportCSV_amt (Some ''abc'') = Num 0"
  "Number ''1234.56'' = Num 1234.56"
  "Number ''12abc'' = NaN"
  "Number ''1e3'' = Num 1000"
  by (simp_all add: number_defs)

lemma example_spec_amount:
  "spec_amount (Some ''1.234,56'') = Num 1234.56"
  "spec_amount (Some ''723,11'') = Num 723.11"
  "spec_amount (Some ''-250.30'') = Num (- 250.30)"
  "spec_amount (Some ''abc'') = Num 0"
  by (simp_all add: spec_amount_def spec_plainDecimal_def amountString_def trim_def isSpace_def
      isDigit_def digitsVal_def digitVal_def)

text \<open>
  C8, as amended. The amount of an imported row. A cell that is missing gives 0.
  Otherwise the cell is trimmed; when it holds both a dot and a comma the dots are
  removed and the first comma becomes the decimal point, when it holds a comma and no
  dot the first comma becomes the decimal point, and without a comma it is left as it
  is. The string so obtained, white space around it aside, is then read as
  \<^verbatim>\<open>Number\<close> reads it: the empty string is 0; a decimal literal, with an optional sign,
  digits before or after an optional point, and an optional exponent, is its value; a
  binary, octal or hexadecimal integer after \<^verbatim>\<open>0b\<close>, \<^verbatim>\<open>0o\<close> or \<^verbatim>\<open>0x\<close>, without sign, is
  its value; \<^verbatim>\<open>Infinity\<close>, with an optional sign, is infinite. Every other string is
  unparseable and gives 0. A minus sign before digits, dots and commas negates the
  amount.
\<close>

theorem onImportCSV_amount:
  "onImportCSV_amt None = Num 0 \<and>
   (\<forall>n. spec_Number (trim (amountString cell)) n \<longrightarrow> onImportCSV_amt (Some cell) = n) \<and>
   ((\<forall>n. \<not> spec_Number (trim (amountString cell)) n) \<longrightarrow>
      onImportCSV_amt (Some cell) = Num 0) \<and>
   (\<forall>a b. trim cell = a @ '','' @ b \<and> CHR '','' \<notin> set a \<and> CHR ''.'' \<in> set (a @ b) \<longrightarrow>
      amountString cell =
        filter (\<lambda>c. c \<noteq> CHR ''.'') a @ ''.'' @ filter (\<lambda>c. c \<noteq> CHR ''.'') b) \<and>
   (\<forall>a b. trim cell = a @ '','' @ b \<and> CHR '','' \<notin> set a \<and> CHR ''.'' \<notin> set (a @ b) \<longrightarrow>
      amountString cell = a @ ''.'' @ b) \<and>
   (CHR '','' \<notin> set (trim cell) \<longrightarrow> amountString cell = trim cell) \<and>
   (list_all isAmountChar u \<longrightarrow>
      onImportCSV_amt (Some (''-'' @ u)) = negJs (onImportCSV_amt (Some u))) \<and>
   map digitVal ''0123456789'' = [0, 1, 2, 3, 4, 5, 6, 7, 8, 9] \<and>
   map baseDigit ''0123456789abcdefABCDEF'' =
     [0, 1, 2, 3, 4, 5, 6, 7, 8, 9, 10, 11, 12, 13, 14, 15, 10, 11, 12, 13, 14, 15] \<and>
   digitsVal [] = 0 \<and> digitsVal (ds @ [d]) = 10 * digitsVal ds + digitVal d \<and>
   (isDigit d \<longleftrightarrow> d \<in> set ''0123456789'')"
proof -
  have missing: "onImportCSV_amt None = Num 0"
    by (simp add: onImportCSV_amt_def)
  have parsed: "\<forall>n. spec_Number (trim (amountString cell)) n \<longrightarrow> onImportCSV_amt (Some cell) = n"
    by (auto simp: Number_spec onImportCSV_amt_def Let_def)
  have unparsed: "(\<forall>n. \<not> spec_Number (trim (amountString cell)) n) \<longrightarrow>
      onImportCSV_amt (Some cell) = Num 0"
    by (auto simp: Number_spec onImportCSV_amt_def Let_def)
  have both: "\<forall>a b. trim cell = a @ '','' @ b \<and> CHR '','' \<notin> set a \<and> CHR ''.'' \<in> set (a @ b) \<longrightarrow>
      amountString cell =
        filter (\<lambda>c. c \<noteq> CHR ''.'') a @ ''.'' @ filter (\<lambda>c. c \<noteq> CHR ''.'') b"
    using amountString_both[of cell] by blast
  have comma: "\<forall>a b. trim cell = a @ '','' @ b \<and> CHR '','' \<notin> set a \<and> CHR ''.'' \<notin> set (a @ b) \<longrightarrow>
      amountString cell = a @ ''.'' @ b"
    using amountString_comma[of cell] by blast
  have plain: "CHR '','' \<notin> set (trim cell) \<longrightarrow> amountString cell = trim cell"
    using amountString_plain[of cell] by blast
  have sign: "list_all isAmountChar u \<longrightarrow>
      onImportCSV_amt (Some (''-'' @ u)) = negJs (onImportCSV_amt (Some u))"
    using amt_minus[of u] by simp
  have digits: "map digitVal ''0123456789'' = [0, 1, 2, 3, 4, 5, 6, 7, 8, 9]"
    "map baseDigit ''0123456789abcdefABCDEF'' =
     [0, 1, 2, 3, 4, 5, 6, 7, 8, 9, 10, 11, 12, 13, 14, 15, 10, 11, 12, 13, 14, 15]"
    "digitsVal [] = 0" "digitsVal (ds @ [d]) = 10 * digitsVal ds + digitVal d"
    "isDigit d \<longleftrightarrow> d \<in> set ''0123456789''"
    by (simp_all add: digitVal_def baseDigit_def toLowerChar_def digitsVal_def isDigit_def)
  from missing parsed unparsed both comma plain sign digits show ?thesis
    by blast
qed

theorem onImportCSV_amount_witness:
  "amountString ''1.234,56'' = ''1234.56'' \<and>
   onImportCSV_amt (Some ''1.234,56'') = Num 1234.56 \<and>
   amountString ''723,11'' = ''723.11'' \<and>
   amountString ''-250.30'' = ''-250.30'' \<and>
   onImportCSV_amt (Some ''-250.30'') = Num (- 250.30) \<and>
   onImportCSV_amt (Some ''12abc'') = Num 0 \<and>
   onImportCSV_amt (Some ''1e3'') = Num 1000"
proof -
  note h = onImportCSV_amount[where cell = "''1.234,56''" and u = "''250.30''"]
  have t: "trim ''1.234,56'' = ''1.234'' @ '','' @ ''56''"
    by (simp add: trim_def isSpace_def)
  have "amountString ''1.234,56'' =
      filter (\<lambda>c. c \<noteq> CHR ''.'') ''1.234'' @ ''.'' @ filter (\<lambda>c. c \<noteq> CHR ''.'') ''56''"
    using h[THEN conjunct2, THEN conjunct2, THEN conjunct2, THEN conjunct1, rule_format,
        of "''1.234''" "''56''"] t
    by simp
  then have a: "amountString ''1.234,56'' = ''1234.56''"
    by simp
  have "spec_Number (trim ''1234.56'') (Num 1234.56)"
    unfolding Number_spec example_amounts by simp
  then have b: "onImportCSV_amt (Some ''1.234,56'') = Num 1234.56"
    using h[THEN conjunct2, THEN conjunct1, rule_format, of "Num 1234.56"] unfolding a
    by blast
  have "list_all isAmountChar ''250.30''"
    by (simp add: isAmountChar_def isDigit_def)
  with h have "onImportCSV_amt (Some (''-'' @ ''250.30'')) =
      negJs (onImportCSV_amt (Some ''250.30''))"
    by blast
  then have c: "onImportCSV_amt (Some ''-250.30'') = Num (- 250.30)"
    unfolding example_amounts by simp
  have t2: "trim ''723,11'' = ''723'' @ '','' @ ''11''"
    by (simp add: trim_def isSpace_def)
  have "amountString ''723,11'' = ''723'' @ ''.'' @ ''11''"
    using onImportCSV_amount[where cell = "''723,11''", THEN conjunct2, THEN conjunct2,
        THEN conjunct2, THEN conjunct2, THEN conjunct1, rule_format, of "''723''" "''11''"] t2
    by simp
  then have d: "amountString ''723,11'' = ''723.11''"
    by simp
  have t3: "trim ''-250.30'' = ''-250.30''" "trim ''12abc'' = ''12abc''" "trim ''1e3'' = ''1e3''"
    by (simp_all add: trim_def isSpace_def)
  have e: "amountString ''-250.30'' = ''-250.30''"
    using onImportCSV_amount[where cell = "''-250.30''"] unfolding t3 by simp
  have s4: "amountString ''12abc'' = ''12abc''" "amountString ''1e3'' = ''1e3''"
    using onImportCSV_amount[where cell = "''12abc''"] onImportCSV_amount[where cell = "''1e3''"]
    unfolding t3 by simp_all
  have "\<forall>n. \<not> spec_Number (trim ''12abc'') n"
    unfolding Number_spec example_amounts by simp
  then have f: "onImportCSV_amt (Some ''12abc'') = Num 0"
    using onImportCSV_amount[where cell = "''12abc''", THEN conjunct2, THEN conjunct2,
        THEN conjunct1] unfolding s4 by blast
  have "spec_Number (trim ''1e3'') (Num 1000)"
    unfolding Number_spec example_amounts by simp
  then have g: "onImportCSV_amt (Some ''1e3'') = Num 1000"
    using onImportCSV_amount[where cell = "''1e3''", THEN conjunct2, THEN conjunct1,
        rule_format, of "Num 1000"] unfolding s4 by blast
  from a b c d e f g show ?thesis
    by blast
qed

text \<open>
  C8 as the specification states it fails. A string without comma is not always parsed
  as a plain decimal number, and a string that is not one is not always read as 0:
  \<^verbatim>\<open>0x1A\<close> gives 26 and \<^verbatim>\<open>Infinity\<close> gives an infinite amount, where the
  specification's parse of a plain decimal number rejects both and gives 0.
\<close>

theorem onImportCSV_amount_plain_decimal_counterexample:
  "onImportCSV_amt (Some ''0x1A'') = Num 26 \<and> spec_amount (Some ''0x1A'') = Num 0 \<and>
   onImportCSV_amt (Some ''Infinity'') = PosInfinity \<and>
   spec_amount (Some ''Infinity'') = Num 0"
  by (simp add: number_defs spec_amount_def spec_plainDecimal_def)

lemma split_str_last: "sep \<notin> set a \<Longrightarrow> split_str sep a = [a]"
  by (induction a) auto

lemma split_str_append:
  "sep \<notin> set a \<Longrightarrow> split_str sep (a @ sep # rest) = a # split_str sep rest"
  by (induction a) (auto split: list.splits)

lemma isDigit_not_sep: "isDigit c \<Longrightarrow> c \<noteq> CHR ''/'' \<and> c \<noteq> CHR ''-''"
  by (auto simp: isDigit_def)

lemma digits_no_slash: "list_all isDigit s \<Longrightarrow> CHR ''/'' \<notin> set s"
  using isDigit_not_sep by (auto simp: list_all_iff)

lemma length10:
  "length s = 10 \<longleftrightarrow> (\<exists>a b c d e f g h i j. s = [a, b, c, d, e, f, g, h, i, j])"
  by (auto simp: eval_nat_numeral length_Suc_conv)

lemma len2: "length s = 2 \<longleftrightarrow> (\<exists>a b. s = [a, b])"
  by (auto simp: eval_nat_numeral length_Suc_conv)

lemma len4: "length s = 4 \<longleftrightarrow> (\<exists>a b c d. s = [a, b, c, d])"
  by (auto simp: eval_nat_numeral length_Suc_conv)

lemma isoPattern_shape:
  "isoPattern s \<longleftrightarrow>
     (\<exists>y m d. s = y @ ''-'' @ m @ ''-'' @ d \<and> length y = 4 \<and> length m = 2 \<and> length d = 2 \<and>
        list_all isDigit (y @ m @ d))"
proof
  assume "isoPattern s"
  then obtain a b c d e f g h i j where s: "s = [a, b, c, d, e, f, g, h, i, j]"
    unfolding isoPattern_def length10 by blast
  with \<open>isoPattern s\<close> have "s = [a, b, c, d] @ ''-'' @ [f, g] @ ''-'' @ [i, j] \<and>
      list_all isDigit ([a, b, c, d] @ [f, g] @ [i, j])"
    by (simp add: isoPattern_def)
  then show "\<exists>y m d. s = y @ ''-'' @ m @ ''-'' @ d \<and> length y = 4 \<and> length m = 2 \<and> length d = 2 \<and>
        list_all isDigit (y @ m @ d)"
    by (intro exI[of _ "[a, b, c, d]"] exI[of _ "[f, g]"] exI[of _ "[i, j]"]) simp
next
  assume "\<exists>y m d. s = y @ ''-'' @ m @ ''-'' @ d \<and> length y = 4 \<and> length m = 2 \<and> length d = 2 \<and>
        list_all isDigit (y @ m @ d)"
  then show "isoPattern s"
    by (auto simp: len2 len4 isoPattern_def)
qed

lemma brPattern_shape:
  "brPattern s \<longleftrightarrow>
     (\<exists>dd mm yyyy. s = dd @ ''/'' @ mm @ ''/'' @ yyyy \<and> length dd = 2 \<and> length mm = 2 \<and>
        length yyyy = 4 \<and> list_all isDigit (dd @ mm @ yyyy))"
proof
  assume "brPattern s"
  then obtain a b c d e f g h i j where s: "s = [a, b, c, d, e, f, g, h, i, j]"
    unfolding brPattern_def length10 by blast
  with \<open>brPattern s\<close> have "s = [a, b] @ ''/'' @ [d, e] @ ''/'' @ [g, h, i, j] \<and>
      list_all isDigit ([a, b] @ [d, e] @ [g, h, i, j])"
    by (simp add: brPattern_def)
  then show "\<exists>dd mm yyyy. s = dd @ ''/'' @ mm @ ''/'' @ yyyy \<and> length dd = 2 \<and> length mm = 2 \<and>
        length yyyy = 4 \<and> list_all isDigit (dd @ mm @ yyyy)"
    by (intro exI[of _ "[a, b]"] exI[of _ "[d, e]"] exI[of _ "[g, h, i, j]"]) simp
next
  assume "\<exists>dd mm yyyy. s = dd @ ''/'' @ mm @ ''/'' @ yyyy \<and> length dd = 2 \<and> length mm = 2 \<and>
        length yyyy = 4 \<and> list_all isDigit (dd @ mm @ yyyy)"
  then show "brPattern s"
    by (auto simp: len2 len4 brPattern_def)
qed

lemma patterns_exclusive: "\<not> (isoPattern s \<and> brPattern s)"
proof
  assume h: "isoPattern s \<and> brPattern s"
  then obtain a b c d e f g h i j where s: "s = [a, b, c, d, e, f, g, h, i, j]"
    unfolding isoPattern_def length10 by blast
  have "\<not> isDigit CHR ''-''"
    by (simp add: isDigit_def)
  with h show False
    by (auto simp: s isoPattern_def brPattern_def)
qed

lemma trim_nonempty: "trim cell \<noteq> [] \<Longrightarrow> cell \<noteq> []"
  by (auto simp: trim_def)

lemma d_iso:
  assumes "isoPattern (trim cell)"
  shows "onImportCSV_d today generic (Some cell) = trim cell"
proof -
  have "trim cell \<noteq> []" using assms by (auto simp: isoPattern_def)
  then have "cell \<noteq> []" by (rule trim_nonempty)
  with assms show ?thesis
    by (simp add: onImportCSV_d_def truthyStr_def)
qed

lemma d_br:
  assumes "trim cell = dd @ ''/'' @ mm @ ''/'' @ yyyy" "length dd = 2" "length mm = 2"
    "length yyyy = 4" "list_all isDigit (dd @ mm @ yyyy)"
  shows "onImportCSV_d today generic (Some cell) = yyyy @ ''-'' @ mm @ ''-'' @ dd"
proof -
  have br: "brPattern (trim cell)"
    unfolding brPattern_shape using assms by blast
  then have niso: "\<not> isoPattern (trim cell)"
    using patterns_exclusive by blast
  have "trim cell \<noteq> []" using assms by auto
  then have ne: "cell \<noteq> []" by (rule trim_nonempty)
  have "split_str CHR ''/'' (dd @ CHR ''/'' # mm @ CHR ''/'' # yyyy) = [dd, mm, yyyy]"
    using assms(5) by (simp add: split_str_append split_str_last digits_no_slash)
  then have sp: "split_str CHR ''/'' (trim cell) = [dd, mm, yyyy]"
    using assms(1) by simp
  show ?thesis
    using br niso ne by (simp add: onImportCSV_d_def truthyStr_def Let_def sp element_def)
qed

text \<open>
  C9. The date of an imported row. A cell that is missing or empty gives the current
  date. Otherwise the cell is trimmed and (a) a string of the shape YYYY-MM-DD is kept
  as it is; (b) a string of the shape DD/MM/YYYY is rearranged to YYYY-MM-DD, whatever
  its digits; (c) any other string goes to the platform's date parser, and gives the
  current date when the parser fails. No string has both shapes, and (a) is tested
  first.
\<close>

theorem onImportCSV_date:
  "onImportCSV_d today generic None = today \<and>
   onImportCSV_d today generic (Some []) = today \<and>
   (\<forall>y m d. trim cell = y @ ''-'' @ m @ ''-'' @ d \<and> length y = 4 \<and> length m = 2 \<and>
        length d = 2 \<and> list_all isDigit (y @ m @ d) \<longrightarrow>
      onImportCSV_d today generic (Some cell) = trim cell) \<and>
   (\<forall>dd mm yyyy. trim cell = dd @ ''/'' @ mm @ ''/'' @ yyyy \<and> length dd = 2 \<and>
        length mm = 2 \<and> length yyyy = 4 \<and> list_all isDigit (dd @ mm @ yyyy) \<longrightarrow>
      onImportCSV_d today generic (Some cell) = yyyy @ ''-'' @ mm @ ''-'' @ dd) \<and>
   (cell \<noteq> [] \<and> \<not> isoPattern (trim cell) \<and> \<not> brPattern (trim cell) \<longrightarrow>
      onImportCSV_d today generic (Some cell) =
        (case generic (trim cell) of None \<Rightarrow> today | Some parsed \<Rightarrow> parsed)) \<and>
   (isoPattern (trim cell) \<longrightarrow> onImportCSV_d today generic (Some cell) = trim cell) \<and>
   \<not> (isoPattern (trim cell) \<and> brPattern (trim cell)) \<and>
   (isoPattern (trim cell) \<longleftrightarrow>
      (\<exists>y m d. trim cell = y @ ''-'' @ m @ ''-'' @ d \<and> length y = 4 \<and> length m = 2 \<and>
         length d = 2 \<and> list_all isDigit (y @ m @ d))) \<and>
   (brPattern (trim cell) \<longleftrightarrow>
      (\<exists>dd mm yyyy. trim cell = dd @ ''/'' @ mm @ ''/'' @ yyyy \<and> length dd = 2 \<and>
         length mm = 2 \<and> length yyyy = 4 \<and> list_all isDigit (dd @ mm @ yyyy)))"
proof -
  have 1: "onImportCSV_d today generic None = today"
    and 2: "onImportCSV_d today generic (Some []) = today"
    by (simp_all add: onImportCSV_d_def truthyStr_def)
  have 3: "\<forall>y m d. trim cell = y @ ''-'' @ m @ ''-'' @ d \<and> length y = 4 \<and> length m = 2 \<and>
        length d = 2 \<and> list_all isDigit (y @ m @ d) \<longrightarrow>
      onImportCSV_d today generic (Some cell) = trim cell"
    using d_iso[of cell] isoPattern_shape[of "trim cell"] by blast
  have 4: "\<forall>dd mm yyyy. trim cell = dd @ ''/'' @ mm @ ''/'' @ yyyy \<and> length dd = 2 \<and>
        length mm = 2 \<and> length yyyy = 4 \<and> list_all isDigit (dd @ mm @ yyyy) \<longrightarrow>
      onImportCSV_d today generic (Some cell) = yyyy @ ''-'' @ mm @ ''-'' @ dd"
    using d_br[of cell] by blast
  have 5: "cell \<noteq> [] \<and> \<not> isoPattern (trim cell) \<and> \<not> brPattern (trim cell) \<longrightarrow>
      onImportCSV_d today generic (Some cell) =
        (case generic (trim cell) of None \<Rightarrow> today | Some parsed \<Rightarrow> parsed)"
    by (simp add: onImportCSV_d_def truthyStr_def)
  have 6: "isoPattern (trim cell) \<longrightarrow> onImportCSV_d today generic (Some cell) = trim cell"
    using d_iso[of cell] by blast
  show ?thesis
    using 1 2 3 4 5 6 patterns_exclusive[of "trim cell"] isoPattern_shape[of "trim cell"]
      brPattern_shape[of "trim cell"]
    by (intro conjI) assumption+
qed

theorem onImportCSV_date_witness:
  "onImportCSV_d ''2026-11-03'' (\<lambda>s. if s = ''15 Sep 2025'' then Some ''2025-09-15'' else None)
     (Some ''99/99/2025'') = ''2025-99-99'' \<and>
   onImportCSV_d ''2026-11-03'' (\<lambda>s. if s = ''15 Sep 2025'' then Some ''2025-09-15'' else None)
     (Some '' 2025-09-15 '') = ''2025-09-15'' \<and>
   onImportCSV_d ''2026-11-03'' (\<lambda>s. if s = ''15 Sep 2025'' then Some ''2025-09-15'' else None)
     (Some ''15 Sep 2025'') = ''2025-09-15'' \<and>
   onImportCSV_d ''2026-11-03'' (\<lambda>s. if s = ''15 Sep 2025'' then Some ''2025-09-15'' else None)
     (Some ''garbage'') = ''2026-11-03'' \<and>
   onImportCSV_d ''2026-11-03'' (\<lambda>s. if s = ''15 Sep 2025'' then Some ''2025-09-15'' else None)
     None = ''2026-11-03''"
proof -
  let ?g = "\<lambda>s. if s = ''15 Sep 2025'' then Some ''2025-09-15'' else None"
  note h = onImportCSV_date[where today = "''2026-11-03''" and generic = ?g]
  have t: "trim ''99/99/2025'' = ''99'' @ ''/'' @ ''99'' @ ''/'' @ ''2025''"
    by (simp add: trim_def isSpace_def)
  have d: "length ''99'' = 2 \<and> length ''2025'' = 4 \<and> list_all isDigit (''99'' @ ''99'' @ ''2025'')"
    by (simp add: isDigit_def)
  have "onImportCSV_d ''2026-11-03'' ?g (Some ''99/99/2025'') = ''2025'' @ ''-'' @ ''99'' @ ''-'' @ ''99''"
    using h[where cell = "''99/99/2025''"] t d
    by (elim conjE allE[of _ "''99''"] allE[of _ "''2025''"]) blast
  then have br: "onImportCSV_d ''2026-11-03'' ?g (Some ''99/99/2025'') = ''2025-99-99''"
    by simp
  have t2: "trim '' 2025-09-15 '' = ''2025'' @ ''-'' @ ''09'' @ ''-'' @ ''15''"
    by (simp add: trim_def isSpace_def)
  have d2: "length ''2025'' = 4 \<and> length ''09'' = 2 \<and> length ''15'' = 2 \<and>
      list_all isDigit (''2025'' @ ''09'' @ ''15'')"
    by (simp add: isDigit_def)
  have "onImportCSV_d ''2026-11-03'' ?g (Some '' 2025-09-15 '') = trim '' 2025-09-15 ''"
    using h[where cell = "'' 2025-09-15 ''"] t2 d2
    by (elim conjE allE[of _ "''2025''"] allE[of _ "''09''"] allE[of _ "''15''"]) blast
  then have iso: "onImportCSV_d ''2026-11-03'' ?g (Some '' 2025-09-15 '') = ''2025-09-15''"
    unfolding t2 by simp
  have t3: "trim ''15 Sep 2025'' = ''15 Sep 2025''" "trim ''garbage'' = ''garbage''"
    by (simp_all add: trim_def isSpace_def)
  have n3: "\<not> isoPattern ''15 Sep 2025''" "\<not> brPattern ''15 Sep 2025''"
    "\<not> isoPattern ''garbage''" "\<not> brPattern ''garbage''"
    by (simp_all add: isoPattern_def brPattern_def)
  have gen: "onImportCSV_d ''2026-11-03'' ?g (Some ''15 Sep 2025'') = ''2025-09-15''"
    using h[where cell = "''15 Sep 2025''"] n3 unfolding t3 by simp
  have fall: "onImportCSV_d ''2026-11-03'' ?g (Some ''garbage'') = ''2026-11-03''"
    using h[where cell = "''garbage''"] n3 unfolding t3 by simp
  have none: "onImportCSV_d ''2026-11-03'' ?g None = ''2026-11-03''"
    using h by blast
  from br iso gen fall none show ?thesis
    by blast
qed

section \<open>Backup and restore\<close>

lemma jsonSafe_defined: "jsonSafe v \<Longrightarrow> v \<noteq> JUndefined"
  by auto

lemma jsonClone_safe: "jsonSafe v \<Longrightarrow> jsonClone v = v"
proof (induction v rule: jsonClone.induct)
  case (6 xs)
  then show ?case
    by (simp add: list_all_iff map_idI)
next
  case (7 kvs)
  then have "filter (\<lambda>kv. snd kv \<noteq> JUndefined) kvs = kvs"
    by (auto simp: list_all_iff filter_id_conv)
  moreover have "map (\<lambda>kv. (fst kv, jsonClone (snd kv))) kvs = kvs"
  proof (rule map_idI)
    fix kv assume kv: "kv \<in> set kvs"
    with 7 have "jsonSafe (snd kv)"
      by (simp add: list_all_iff)
    with kv 7 jsonSafe_defined have "jsonClone (snd kv) = snd kv"
      by simp
    then show "(fst kv, jsonClone (snd kv)) = kv"
      by simp
  qed
  ultimately show ?case
    by simp
qed (simp_all split: jsnum.splits)

lemma map_of_jsonClone:
  "distinct (map fst kvs) \<Longrightarrow>
   map_of (map (\<lambda>kv. (fst kv, jsonClone (snd kv))) (filter (\<lambda>kv. snd kv \<noteq> JUndefined) kvs)) k =
     (case map_of kvs k of
        None \<Rightarrow> None
      | Some v \<Rightarrow> if v = JUndefined then None else Some (jsonClone v))"
proof (induction kvs)
  case Nil
  then show ?case by simp
next
  case (Cons kv kvs)
  then have "fst kv \<notin> fst ` set kvs"
    by simp
  then have "map_of kvs (fst kv) = None"
    by (simp add: map_of_eq_None_iff)
  with Cons show ?case
    by (cases kv) (auto split: option.splits)
qed

lemma readField_jsonClone:
  "distinct (map fst kvs) \<Longrightarrow>
   readField (jsonClone (JObj kvs)) k =
     (if readField (JObj kvs) k = JUndefined then JUndefined
      else jsonClone (readField (JObj kvs) k))"
  by (simp add: readField_def map_of_jsonClone split: option.splits)

text \<open>
  C10, as amended. Restoring the backup of a state whose collections are arrays and an
  object gives the transactions back in the same order, each as the file holds it: an
  array or object with the same elements and fields, a string, a boolean, a finite
  number as it was; a field that held \<^verbatim>\<open>undefined\<close> absent, so that it still reads
  \<^verbatim>\<open>undefined\<close>; a number that is not finite (the amount \<^verbatim>\<open>Infinity\<close>, which the import
  takes from the cell \<^verbatim>\<open>Infinity\<close>) replaced by \<^verbatim>\<open>null\<close>. When the state holds neither
  \<^verbatim>\<open>undefined\<close> nor a number that is not finite, the restored state is identical to it,
  whatever the state before. On a payload that is an object, restore replaces each
  collection by the value of its key when the key is present with a truthy value
  (every array and every object is truthy), and leaves the collection as it was when
  the key is absent or its value is falsy (\<^verbatim>\<open>null\<close>, \<^verbatim>\<open>false\<close>, \<^verbatim>\<open>0\<close>, the empty
  string). A payload that does not parse, or that is \<^verbatim>\<open>null\<close>, changes nothing and is
  reported as an invalid file.
\<close>

theorem restore_backup:
  "(s_tx st = JArr ts \<and> s_budget st = JObj bs \<and> s_rules st = JArr rs \<and>
    list_all jsonSafe ts \<and> list_all (\<lambda>kv. jsonSafe (snd kv)) bs \<and> list_all jsonSafe rs \<longrightarrow>
      restore st0 (Some (parsedBackup st)) = (st, Backup_restaurado)) \<and>
   (s_tx st = JArr ts \<longrightarrow>
      s_tx (fst (restore st0 (Some (parsedBackup st)))) = JArr (map jsonClone ts)) \<and>
   (distinct (map fst kvs) \<longrightarrow>
      (\<forall>k. readField (jsonClone (JObj kvs)) k =
         (if readField (JObj kvs) k = JUndefined then JUndefined
          else jsonClone (readField (JObj kvs) k)))) \<and>
   jsonClone (JStr s) = JStr s \<and> jsonClone (JBool b) = JBool b \<and>
   jsonClone (JNum (Num x)) = JNum (Num x) \<and> jsonClone JNull = JNull \<and>
   jsonClone (JNum PosInfinity) = JNull \<and> jsonClone (JNum NegInfinity) = JNull \<and>
   jsonClone (JNum NaN) = JNull \<and>
   jsonClone (JArr xs) = JArr (map jsonClone xs) \<and>
   (jsonSafe v \<longrightarrow> jsonClone v = v) \<and>
   restore st0 (Some (JObj kvs)) =
     (\<lparr>s_tx = (case map_of kvs ''tx'' of None \<Rightarrow> s_tx st0
                | Some v \<Rightarrow> if truthy v then v else s_tx st0),
       s_budget = (case map_of kvs ''budget'' of None \<Rightarrow> s_budget st0
                | Some v \<Rightarrow> if truthy v then v else s_budget st0),
       s_rules = (case map_of kvs ''rules'' of None \<Rightarrow> s_rules st0
                | Some v \<Rightarrow> if truthy v then v else s_rules st0)\<rparr>,
      Backup_restaurado) \<and>
   restore st0 None = (st0, Arquivo_invalido) \<and>
   restore st0 (Some JNull) = (st0, Arquivo_invalido)"
proof -
  have same: "s_tx st = JArr ts \<and> s_budget st = JObj bs \<and> s_rules st = JArr rs \<and>
    list_all jsonSafe ts \<and> list_all (\<lambda>kv. jsonSafe (snd kv)) bs \<and> list_all jsonSafe rs \<longrightarrow>
      restore st0 (Some (parsedBackup st)) = (st, Backup_restaurado)"
  proof
    assume that: "s_tx st = JArr ts \<and> s_budget st = JObj bs \<and> s_rules st = JArr rs \<and>
      list_all jsonSafe ts \<and> list_all (\<lambda>kv. jsonSafe (snd kv)) bs \<and> list_all jsonSafe rs"
    then have "jsonSafe (JArr ts)" "jsonSafe (JObj bs)" "jsonSafe (JArr rs)"
      by simp_all
    then have "jsonClone (JArr ts) = JArr ts" "jsonClone (JObj bs) = JObj bs"
      "jsonClone (JArr rs) = JArr rs"
      using jsonClone_safe by blast+
    then have "map jsonClone ts = ts" "map jsonClone rs = rs"
      "map (\<lambda>kv. (fst kv, jsonClone (snd kv))) (filter (\<lambda>kv. snd kv \<noteq> JUndefined) bs) = bs"
      by simp_all
    with that show "restore st0 (Some (parsedBackup st)) = (st, Backup_restaurado)"
      by (simp add: restore_def parsedBackup_def backupPayload_def setIfTruthy_def)
  qed
  have order: "s_tx st = JArr ts \<longrightarrow>
      s_tx (fst (restore st0 (Some (parsedBackup st)))) = JArr (map jsonClone ts)"
    by (simp add: restore_def parsedBackup_def backupPayload_def setIfTruthy_def)
  have fields: "distinct (map fst kvs) \<longrightarrow>
      (\<forall>k. readField (jsonClone (JObj kvs)) k =
         (if readField (JObj kvs) k = JUndefined then JUndefined
          else jsonClone (readField (JObj kvs) k)))"
    using readField_jsonClone[of kvs] by blast
  have leaves: "jsonClone (JStr s) = JStr s" "jsonClone (JBool b) = JBool b"
    "jsonClone (JNum (Num x)) = JNum (Num x)" "jsonClone JNull = JNull"
    "jsonClone (JNum PosInfinity) = JNull" "jsonClone (JNum NegInfinity) = JNull"
    "jsonClone (JNum NaN) = JNull" "jsonClone (JArr xs) = JArr (map jsonClone xs)"
    by simp_all
  have safe: "jsonSafe v \<longrightarrow> jsonClone v = v"
    using jsonClone_safe[of v] by blast
  have keys: "restore st0 (Some (JObj kvs)) =
     (\<lparr>s_tx = (case map_of kvs ''tx'' of None \<Rightarrow> s_tx st0
                | Some v \<Rightarrow> if truthy v then v else s_tx st0),
       s_budget = (case map_of kvs ''budget'' of None \<Rightarrow> s_budget st0
                | Some v \<Rightarrow> if truthy v then v else s_budget st0),
       s_rules = (case map_of kvs ''rules'' of None \<Rightarrow> s_rules st0
                | Some v \<Rightarrow> if truthy v then v else s_rules st0)\<rparr>,
      Backup_restaurado)"
    by (simp add: restore_def setIfTruthy_def)
  have bad: "restore st0 None = (st0, Arquivo_invalido)"
    "restore st0 (Some JNull) = (st0, Arquivo_invalido)"
    by (simp_all add: restore_def)
  from same order fields leaves safe keys bad show ?thesis
    by blast
qed

theorem restore_backup_witness:
  "restore \<lparr>s_tx = JArr [], s_budget = JObj [], s_rules = JArr [JNum (Num 1)]\<rparr>
     (Some (parsedBackup
        \<lparr>s_tx = JArr [JObj [(''id'', JStr ''a''), (''amount'', JNum (Num (- 20)))],
                       JObj [(''id'', JStr ''b''), (''amount'', JNum (Num 1000))]],
          s_budget = JObj [(''Moradia'', JNum (Num 0.3))], s_rules = JArr []\<rparr>))
   = (\<lparr>s_tx = JArr [JObj [(''id'', JStr ''a''), (''amount'', JNum (Num (- 20)))],
                       JObj [(''id'', JStr ''b''), (''amount'', JNum (Num 1000))]],
          s_budget = JObj [(''Moradia'', JNum (Num 0.3))], s_rules = JArr []\<rparr>,
      Backup_restaurado) \<and>
   readField (jsonClone (JObj [(''id'', JStr ''c''), (''category'', JUndefined)])) ''category'' =
     JUndefined \<and>
   readField (jsonClone (JObj [(''id'', JStr ''c''), (''category'', JUndefined)])) ''id'' =
     JStr ''c''"
proof -
  note h = restore_backup
    [where st = "\<lparr>s_tx = JArr [JObj [(''id'', JStr ''a''), (''amount'', JNum (Num (- 20)))],
                       JObj [(''id'', JStr ''b''), (''amount'', JNum (Num 1000))]],
          s_budget = JObj [(''Moradia'', JNum (Num 0.3))], s_rules = JArr []\<rparr>"
       and st0 = "\<lparr>s_tx = JArr [], s_budget = JObj [], s_rules = JArr [JNum (Num 1)]\<rparr>"
       and ts = "[JObj [(''id'', JStr ''a''), (''amount'', JNum (Num (- 20)))],
                       JObj [(''id'', JStr ''b''), (''amount'', JNum (Num 1000))]]"
       and bs = "[(''Moradia'', JNum (Num 0.3))]" and rs = "[]"
       and kvs = "[(''id'', JStr ''c''), (''category'', JUndefined)]"]
  have d: "distinct (map fst [(''id'', JStr ''c''), (''category'', JUndefined :: jsvalue)])"
    by simp
  have r: "readField (JObj [(''id'', JStr ''c''), (''category'', JUndefined)]) ''category'' = JUndefined"
    "readField (JObj [(''id'', JStr ''c''), (''category'', JUndefined)]) ''id'' = JStr ''c''"
    by (simp_all add: readField_def)
  from h d have "\<forall>k. readField (jsonClone (JObj [(''id'', JStr ''c''), (''category'', JUndefined)])) k =
         (if readField (JObj [(''id'', JStr ''c''), (''category'', JUndefined)]) k = JUndefined
          then JUndefined
          else jsonClone (readField (JObj [(''id'', JStr ''c''), (''category'', JUndefined)]) k))"
    by blast
  note all = this[rule_format]
  have f: "readField (jsonClone (JObj [(''id'', JStr ''c''), (''category'', JUndefined)])) ''category'' = JUndefined"
    "readField (jsonClone (JObj [(''id'', JStr ''c''), (''category'', JUndefined)])) ''id'' = JStr ''c''"
    using all[of "''category''"] all[of "''id''"] unfolding r by simp_all
  have "restore \<lparr>s_tx = JArr [], s_budget = JObj [], s_rules = JArr [JNum (Num 1)]\<rparr>
     (Some (parsedBackup
        \<lparr>s_tx = JArr [JObj [(''id'', JStr ''a''), (''amount'', JNum (Num (- 20)))],
                       JObj [(''id'', JStr ''b''), (''amount'', JNum (Num 1000))]],
          s_budget = JObj [(''Moradia'', JNum (Num 0.3))], s_rules = JArr []\<rparr>))
   = (\<lparr>s_tx = JArr [JObj [(''id'', JStr ''a''), (''amount'', JNum (Num (- 20)))],
                       JObj [(''id'', JStr ''b''), (''amount'', JNum (Num 1000))]],
          s_budget = JObj [(''Moradia'', JNum (Num 0.3))], s_rules = JArr []\<rparr>,
      Backup_restaurado)"
    using h by simp
  with f show ?thesis
    by blast
qed

text \<open>
  C10 as the specification states it fails twice. In the payload \<^verbatim>\<open>{"tx": null}\<close> the
  key \<^verbatim>\<open>tx\<close> is present, and the transactions are left as they were. And a state with
  a transaction whose amount is \<^verbatim>\<open>Infinity\<close> comes back with the amount \<^verbatim>\<open>null\<close>: the
  transactions restored are not the ones exported.
\<close>

theorem restore_backup_counterexample:
  "map_of [(''tx'', JNull)] ''tx'' = Some JNull \<and>
   restore \<lparr>s_tx = JArr [JStr ''a''], s_budget = JObj [], s_rules = JArr []\<rparr>
     (Some (JObj [(''tx'', JNull)])) =
   (\<lparr>s_tx = JArr [JStr ''a''], s_budget = JObj [], s_rules = JArr []\<rparr>, Backup_restaurado) \<and>
   s_tx (fst (restore \<lparr>s_tx = JArr [], s_budget = JObj [], s_rules = JArr []\<rparr>
     (Some (parsedBackup
        \<lparr>s_tx = JArr [JObj [(''id'', JStr ''a''), (''amount'', JNum PosInfinity)]],
          s_budget = JObj [], s_rules = JArr []\<rparr>)))) =
     JArr [JObj [(''id'', JStr ''a''), (''amount'', JNull)]]"
  by (simp add: restore_def setIfTruthy_def parsedBackup_def backupPayload_def)

end
